theory Spec2Isabelle
  imports Complex_Main
begin

section \<open>Numbers\<close>

text \<open>
  A JavaScript number is a finite value, one of the two infinities, or NaN. Finite values
  are modelled as reals: the rounding of IEEE 754 binary64 arithmetic and its overflow to
  an infinity are not modelled, and the model has one zero, read as \<open>+0\<close> where the sign
  shows (a quotient by zero). The operations below follow ECMAScript on everything else:
  how NaN and the infinities propagate, what counts as falsy, how \<open>Math.min\<close> and
  \<open>Math.max\<close> treat NaN.
\<close>

datatype jsnum = NaN | PInf | NInf | Fin real

fun isFinite :: "jsnum \<Rightarrow> bool" where
  "isFinite (Fin a) = True"
| "isFinite _ = False"

text \<open>A number of the interval from 0 to 1, ends included.\<close>

fun in_unit :: "jsnum \<Rightarrow> bool" where
  "in_unit (Fin a) = (0 \<le> a \<and> a \<le> 1)"
| "in_unit _ = False"

text \<open>\<open>ToBoolean\<close> of a number: 0 and NaN are falsy.\<close>

fun truthy :: "jsnum \<Rightarrow> bool" where
  "truthy NaN = False"
| "truthy (Fin a) = (a \<noteq> 0)"
| "truthy _ = True"

text \<open>\<open>x || y\<close> on numbers.\<close>

definition js_or :: "jsnum \<Rightarrow> jsnum \<Rightarrow> jsnum" where
  "js_or x y = (if truthy x then x else y)"

text \<open>\<open>x < y\<close>: false as soon as one side is NaN.\<close>

fun js_lt :: "jsnum \<Rightarrow> jsnum \<Rightarrow> bool" where
  "js_lt NaN _ = False"
| "js_lt _ NaN = False"
| "js_lt (Fin a) (Fin b) = (a < b)"
| "js_lt NInf NInf = False"
| "js_lt NInf _ = True"
| "js_lt _ NInf = False"
| "js_lt PInf _ = False"
| "js_lt _ PInf = True"

fun js_sub :: "jsnum \<Rightarrow> jsnum \<Rightarrow> jsnum" where
  "js_sub NaN _ = NaN"
| "js_sub _ NaN = NaN"
| "js_sub (Fin a) (Fin b) = Fin (a - b)"
| "js_sub PInf PInf = NaN"
| "js_sub NInf NInf = NaN"
| "js_sub PInf _ = PInf"
| "js_sub NInf _ = NInf"
| "js_sub _ PInf = NInf"
| "js_sub _ NInf = PInf"

fun js_mul :: "jsnum \<Rightarrow> jsnum \<Rightarrow> jsnum" where
  "js_mul NaN _ = NaN"
| "js_mul _ NaN = NaN"
| "js_mul (Fin a) (Fin b) = Fin (a * b)"
| "js_mul (Fin a) PInf = (if a = 0 then NaN else if 0 < a then PInf else NInf)"
| "js_mul (Fin a) NInf = (if a = 0 then NaN else if 0 < a then NInf else PInf)"
| "js_mul PInf (Fin b) = (if b = 0 then NaN else if 0 < b then PInf else NInf)"
| "js_mul NInf (Fin b) = (if b = 0 then NaN else if 0 < b then NInf else PInf)"
| "js_mul PInf PInf = PInf"
| "js_mul PInf NInf = NInf"
| "js_mul NInf PInf = NInf"
| "js_mul NInf NInf = PInf"

fun js_div :: "jsnum \<Rightarrow> jsnum \<Rightarrow> jsnum" where
  "js_div NaN _ = NaN"
| "js_div _ NaN = NaN"
| "js_div (Fin a) (Fin b) =
     (if b = 0 then (if a = 0 then NaN else if 0 < a then PInf else NInf)
      else Fin (a / b))"
| "js_div (Fin a) _ = Fin 0"
| "js_div PInf (Fin b) = (if 0 \<le> b then PInf else NInf)"
| "js_div NInf (Fin b) = (if 0 \<le> b then NInf else PInf)"
| "js_div _ _ = NaN"

text \<open>
  \<open>x % y\<close>: the remainder has the sign of the dividend (the quotient is truncated towards
  zero); it is NaN for an infinite dividend or a zero divisor, and the dividend itself for
  an infinite divisor.
\<close>

definition trunc :: "real \<Rightarrow> int" where
  "trunc a = (if 0 \<le> a then \<lfloor>a\<rfloor> else \<lceil>a\<rceil>)"

fun js_mod :: "jsnum \<Rightarrow> jsnum \<Rightarrow> jsnum" where
  "js_mod NaN _ = NaN"
| "js_mod _ NaN = NaN"
| "js_mod (Fin a) (Fin b) = (if b = 0 then NaN else Fin (a - b * of_int (trunc (a / b))))"
| "js_mod (Fin a) _ = Fin a"
| "js_mod _ _ = NaN"

fun Math_floor :: "jsnum \<Rightarrow> jsnum" where
  "Math_floor (Fin a) = Fin (of_int \<lfloor>a\<rfloor>)"
| "Math_floor x = x"

fun Math_min :: "jsnum \<Rightarrow> jsnum \<Rightarrow> jsnum" where
  "Math_min NaN _ = NaN"
| "Math_min _ NaN = NaN"
| "Math_min x y = (if js_lt y x then y else x)"

fun Math_max :: "jsnum \<Rightarrow> jsnum \<Rightarrow> jsnum" where
  "Math_max NaN _ = NaN"
| "Math_max _ NaN = NaN"
| "Math_max x y = (if js_lt x y then y else x)"

subsection \<open>Numbers in template literals\<close>

text \<open>
  \<open>Number::toString\<close> prints NaN and the infinities by name, and an integer below \<open>2\<^sup>5\<^sup>3\<close> in
  magnitude as its decimal digits with a leading minus sign when negative. Every other
  finite number is printed with a fraction, an exponent, or the shortest digits that
  read back as the same binary64 value: the model does not print it, and says so with
  \<open>None\<close>.
\<close>

definition digit :: "nat \<Rightarrow> char" where
  "digit d = ''0123456789'' ! d"

fun decimal :: "nat \<Rightarrow> string" where
  "decimal n = (if n < 10 then [digit n] else decimal (n div 10) @ [digit (n mod 10)])"

declare decimal.simps [simp del]

fun toString :: "jsnum \<Rightarrow> string option" where
  "toString NaN = Some ''NaN''"
| "toString PInf = Some ''Infinity''"
| "toString NInf = Some ''-Infinity''"
| "toString (Fin a) =
     (if of_int \<lfloor>a\<rfloor> = a \<and> \<bar>a\<bar> < 2 ^ 53
      then Some (if a < 0 then ''-'' @ decimal (nat \<lfloor>- a\<rfloor>) else decimal (nat \<lfloor>a\<rfloor>))
      else None)"

section \<open>Time formatting\<close>

text \<open>
  \<open>formatTime\<close> of \<open>src/unnamed/part_000\<close> (lines 94-98 and, word for word the same,
  lines 327-331):
  \<^verbatim>\<open>
  const formatTime = (time: number) => {
    const minutes = Math.floor(time / 60);
    const seconds = Math.floor(time % 60);
    return `${minutes}:${seconds < 10 ? "0" : ""}${seconds}`;
  };
  \<close>
  The quotient \<open>time / 60\<close> is rounded to binary64 before \<open>Math.floor\<close> sees it. For a time
  from 0 up to \<open>2\<^sup>5\<^sup>3\<close> the rounding cannot reach the next whole number: every multiple
  \<open>60 k\<close> in that range is a binary64 number, the binary64 number just below it is
  more than half a step of the numbers around \<open>k\<close> away from it after the division, and
  rounding is monotone; so the floor of the rounded quotient is the floor of the exact
  one there. The remainder \<open>time % 60\<close> and \<open>Math.floor\<close> are exact. On a finite time outside
  that range (a negative time, whose quotient can underflow to \<open>-0\<close>, or a time from \<open>2\<^sup>5\<^sup>3\<close>
  on, where the rounded quotient can be the next whole number) the exact quotient is not
  what the code computes, and the model gives \<open>None\<close>; it treats NaN and the infinities
  as ECMAScript does.
\<close>

fun exact_time :: "jsnum \<Rightarrow> bool" where
  "exact_time (Fin a) = (0 \<le> a \<and> a < 2 ^ 53)"
| "exact_time _ = True"

definition formatTime :: "jsnum \<Rightarrow> string option" where
  "formatTime time =
     (if \<not> exact_time time then None
      else
        let minutes = Math_floor (js_div time (Fin 60));
            seconds = Math_floor (js_mod time (Fin 60))
        in case toString minutes of
             None \<Rightarrow> None
           | Some m \<Rightarrow>
               (case toString seconds of
                  None \<Rightarrow> None
                | Some s \<Rightarrow>
                    Some (m @ '':'' @ (if js_lt seconds (Fin 10) then ''0'' else '''') @ s)))"

section \<open>Row layout: the chunking rule\<close>

text \<open>
  Modelled from the spec: \<open>chunkByPattern\<close> is imported by
  \<open>src/components/motion-reel-section.tsx\<close> from the module \<open>@/lib/chunk\<close>, which is not
  among the sources. Section 4.2 of the specification gives its contract: with the
  repeating pattern of row sizes 3, 2, the items are consumed greedily in their original
  order; row \<open>i\<close> takes \<open>pattern[i % pattern.length]\<close> items, or fewer when the input is
  exhausted; an empty input yields zero rows. The call site reads row \<open>i\<close> as a portrait
  row of three columns when \<open>i\<close> is even and as a landscape row of two columns otherwise,
  which is the pattern 3, 2.
\<close>

definition pattern :: "nat list" where
  "pattern = [3, 2]"

function chunk_rows :: "nat \<Rightarrow> 'a list \<Rightarrow> 'a list list" where
  "chunk_rows i items =
     (if items = [] then []
      else take (pattern ! (i mod length pattern)) items
             # chunk_rows (i + 1) (drop (pattern ! (i mod length pattern)) items))"
  by pat_completeness auto
termination
proof (relation "measure (\<lambda>(i, items). length items)")
  show "wf (measure (\<lambda>(i, items :: 'a list). length items))" by simp
next
  fix i :: nat and items :: "'a list"
  assume "items \<noteq> []"
  then have "0 < length items" by simp
  moreover have "i mod length pattern < length pattern"
    by (simp add: pattern_def)
  then have "pattern ! (i mod length pattern) \<in> set pattern"
    by (rule nth_mem)
  then have "0 < pattern ! (i mod length pattern)"
    by (auto simp: pattern_def)
  ultimately show "((i + 1, drop (pattern ! (i mod length pattern)) items), (i, items))
      \<in> measure (\<lambda>(i, items). length items)"
    by simp
qed

declare chunk_rows.simps [simp del]

definition chunkByPattern :: "'a list \<Rightarrow> 'a list list" where
  "chunkByPattern items = chunk_rows 0 items"

section \<open>The media element\<close>

text \<open>
  The \<open><video>\<close> element belongs to the browser. The model keeps the four properties the
  components read or write, and what their setters and the two transport methods do at
  the moment of the call:
  \<^item> \<open>pause()\<close> sets \<open>paused\<close>;
  \<^item> \<open>play()\<close> returns a promise. When playback is allowed the call clears \<open>paused\<close> and the
    promise is fulfilled; when the autoplay policy blocks it the element is left as it
    was and the promise is rejected (with a \<open>NotAllowedError\<close>). Which of the two happens
    is the browser's decision, an input of the model;
  \<^item> \<open>muted\<close> is a plain property;
  \<^item> \<open>currentTime\<close> is declared \<open>double\<close> in the element's interface, so assigning NaN or
    an infinity to it throws a \<open>TypeError\<close> and changes nothing. A finite number is stored.
    What the element's own seek does with it afterwards (clamping to the seekable range,
    the \<open>timeupdate\<close> that follows) is not part of the model.
  The events the element fires are inputs as well: the listeners below are applied when
  the browser dispatches them.
\<close>

record video =
  video_paused :: bool
  video_muted :: bool
  video_currentTime :: jsnum
  video_duration :: jsnum

datatype error = TypeError

datatype play_outcome = Fulfilled | Rejected string

definition pause :: "video \<Rightarrow> video" where
  "pause v = v\<lparr>video_paused := True\<rparr>"

definition play :: "play_outcome \<Rightarrow> video \<Rightarrow> video" where
  "play outcome v = (case outcome of Fulfilled \<Rightarrow> v\<lparr>video_paused := False\<rparr> | Rejected e \<Rightarrow> v)"

text \<open>The reasons of the rejected promises among the results of a \<open>play()\<close> call.\<close>

definition rejection :: "play_outcome \<Rightarrow> string list" where
  "rejection outcome = (case outcome of Fulfilled \<Rightarrow> [] | Rejected e \<Rightarrow> [e])"

definition assign_currentTime :: "jsnum \<Rightarrow> video \<Rightarrow> error + video" where
  "assign_currentTime x v = (if isFinite x then Inr (v\<lparr>video_currentTime := x\<rparr>) else Inl TypeError)"

text \<open>
  \<open>load()\<close> restarts the element on its source: it is paused, back at time 0, and its
  duration is unknown again.
\<close>

definition load :: "video \<Rightarrow> video" where
  "load v = v\<lparr>video_paused := True, video_currentTime := Fin 0, video_duration := NaN\<rparr>"

text \<open>An element as the browser creates it: paused, not muted, at time 0, duration unknown.\<close>

definition new_video :: video where
  "new_video = \<lparr>video_paused = True, video_muted = False,
                 video_currentTime = Fin 0, video_duration = NaN\<rparr>"

section \<open>The card of \<open>src/components/motion-reel-section.tsx\<close>\<close>

text \<open>
  The state of one \<open>Card\<close>: its four \<open>useState\<close> cells and \<open>videoRef.current\<close>, which is the
  element while the \<open><video>\<close> is mounted and \<open>null\<close> otherwise. The last field is not
  the component's: it collects the rejected promises that no handler took, which the
  browser reports as unhandled rejections.
\<close>

record card =
  playing :: bool
  muted :: bool
  progress :: jsnum
  showDescription :: bool
  videoRef :: "video option"
  unhandled :: "string list"

text \<open>
  \<^verbatim>\<open>
  const togglePlay = () => {
    if (!videoRef.current) return;
    videoRef.current.paused ? videoRef.current.play() : videoRef.current.pause();
  };
  \<close>
  The promise of \<open>play()\<close> is dropped: nothing handles its rejection.
\<close>

definition togglePlay :: "play_outcome \<Rightarrow> card \<Rightarrow> card" where
  "togglePlay outcome c =
     (case videoRef c of
        None \<Rightarrow> c
      | Some v \<Rightarrow>
          if video_paused v
          then c\<lparr>videoRef := Some (play outcome v), unhandled := unhandled c @ rejection outcome\<rparr>
          else c\<lparr>videoRef := Some (pause v)\<rparr>)"

text \<open>
  \<^verbatim>\<open>
  const toggleMute = () => {
    if (!videoRef.current) return;
    videoRef.current.muted = !videoRef.current.muted;
    setMuted(videoRef.current.muted);
  };
  \<close>
\<close>

definition toggleMute :: "card \<Rightarrow> card" where
  "toggleMute c =
     (case videoRef c of
        None \<Rightarrow> c
      | Some v \<Rightarrow>
          (let v' = v\<lparr>video_muted := \<not> video_muted v\<rparr>
           in c\<lparr>videoRef := Some v', muted := video_muted v'\<rparr>))"

text \<open>
  \<^verbatim>\<open>
  const handleProgress = () => {
    if (!videoRef.current) return;
    const current = videoRef.current.currentTime;
    const duration = videoRef.current.duration || 1;
    setProgress(current / duration);
  };
  \<close>
\<close>

definition handleProgress :: "card \<Rightarrow> card" where
  "handleProgress c =
     (case videoRef c of
        None \<Rightarrow> c
      | Some v \<Rightarrow>
          (let current = video_currentTime v;
               duration = js_or (video_duration v) (Fin 1)
           in c\<lparr>progress := js_div current duration\<rparr>))"

text \<open>
  \<^verbatim>\<open>
  const handleSeek = (e: React.ChangeEvent<HTMLInputElement>) => {
    if (!videoRef.current) return;
    const value = parseFloat(e.target.value);
    videoRef.current.currentTime = value * videoRef.current.duration;
    setProgress(value);
  };
  \<close>
  The event is represented by the number \<open>parseFloat\<close> reads from it. When the assignment
  throws, the handler stops there and the card is as it was.
\<close>

definition handleSeek :: "jsnum \<Rightarrow> card \<Rightarrow> error + card" where
  "handleSeek val c =
     (case videoRef c of
        None \<Rightarrow> Inr c
      | Some v \<Rightarrow>
          (case assign_currentTime (js_mul val (video_duration v)) v of
             Inl e \<Rightarrow> Inl e
           | Inr v' \<Rightarrow> Inr (c\<lparr>videoRef := Some v', progress := val\<rparr>)))"

text \<open>
  The listeners the effect registers on the element (lines 57-74): \<open>play\<close>, \<open>pause\<close> and
  \<open>timeupdate\<close>.
\<close>

definition onPlay :: "card \<Rightarrow> card" where
  "onPlay c = c\<lparr>playing := True\<rparr>"

definition onPause :: "card \<Rightarrow> card" where
  "onPause c = c\<lparr>playing := False\<rparr>"

definition onTimeUpdate :: "card \<Rightarrow> card" where
  "onTimeUpdate c = handleProgress c"

text \<open>The button \<open>Read more\<close> / \<open>Hide\<close>: \<open>setShowDescription(!showDescription)\<close>.\<close>

definition toggleDescription :: "card \<Rightarrow> card" where
  "toggleDescription c = c\<lparr>showDescription := \<not> showDescription c\<rparr>"

text \<open>
  A card after its first render: the initial values of the cells, and the element attached
  with the \<open>muted\<close> property the JSX gives it (\<open>muted={muted}\<close>).
\<close>

definition mount :: "video \<Rightarrow> card" where
  "mount v = \<lparr>playing = False, muted = True, progress = Fin 0, showDescription = False,
              videoRef = Some (v\<lparr>video_muted := True\<rparr>), unhandled = []\<rparr>"

section \<open>The cards of \<open>src/unnamed/part_000\<close>\<close>

text \<open>
  The file holds two versions of the component. Both keep the same eight \<open>useState\<close>
  cells and the reference to the progress bar; the first (lines 1-220) renders a desktop
  and a mobile \<open><video>\<close>, each with its own reference, the second (lines 222-454) a single
  one. Names of the first carry the suffix \<open>_v1\<close>, names of the second \<open>_v2\<close>; what is
  written once below is the same text in both. The cell \<open>progress\<close> of these components
  is a percentage and is called \<open>progressPercent\<close> here.

  \<open>progressRef.current\<close> is represented by the rectangle \<open>getBoundingClientRect()\<close> returns
  for it. \<open>console\<close> collects what the component passes to \<open>console.error\<close>.
\<close>

record rect =
  rect_left :: jsnum
  rect_width :: jsnum

record reel_state =
  isPlaying :: bool
  progressPercent :: jsnum
  duration :: jsnum
  currentTime :: jsnum
  isMuted :: bool
  showControls :: bool
  isLoading :: bool
  hasError :: bool
  progressRef :: "rect option"
  console :: "string list"

record card_v1 = reel_state +
  desktopVideoRef :: "video option"
  mobileVideoRef :: "video option"

record card_v2 = reel_state +
  videoRef_v2 :: "video option"

subsection \<open>Listeners and handlers that are the same in both versions\<close>

text \<open>
  \<^verbatim>\<open>
  const handlePlay = () => setIsPlaying(true);
  const handlePause = () => setIsPlaying(false);
  const handleLoadedMetadata = () => setDuration(video.duration);
  const handleError = () => setHasError(true);
  \<close>
  \<open>video\<close> is the element the effect registered the listeners on, the one that fires the
  event. \<open>onCanPlay\<close> is the JSX attribute \<open>onCanPlay={() => setIsLoading(false)}\<close>; the
  controls bar has \<open>onMouseEnter\<close> and \<open>onMouseLeave\<close>.
\<close>

definition handlePlay :: "'a reel_state_scheme \<Rightarrow> 'a reel_state_scheme" where
  "handlePlay c = c\<lparr>isPlaying := True\<rparr>"

definition handlePause :: "'a reel_state_scheme \<Rightarrow> 'a reel_state_scheme" where
  "handlePause c = c\<lparr>isPlaying := False\<rparr>"

definition handleLoadedMetadata :: "video \<Rightarrow> 'a reel_state_scheme \<Rightarrow> 'a reel_state_scheme" where
  "handleLoadedMetadata video c = c\<lparr>duration := video_duration video\<rparr>"

definition handleError :: "'a reel_state_scheme \<Rightarrow> 'a reel_state_scheme" where
  "handleError c = c\<lparr>hasError := True\<rparr>"

definition onCanPlay :: "'a reel_state_scheme \<Rightarrow> 'a reel_state_scheme" where
  "onCanPlay c = c\<lparr>isLoading := False\<rparr>"

definition onMouseEnter :: "'a reel_state_scheme \<Rightarrow> 'a reel_state_scheme" where
  "onMouseEnter c = c\<lparr>showControls := True\<rparr>"

definition onMouseLeave :: "'a reel_state_scheme \<Rightarrow> 'a reel_state_scheme" where
  "onMouseLeave c = c\<lparr>showControls := False\<rparr>"

text \<open>
  The cells that mirror the element: whether it plays, whether it is still loading or has
  failed, its duration and its current time.
\<close>

definition mirrored :: "'a reel_state_scheme \<Rightarrow> bool \<times> bool \<times> bool \<times> jsnum \<times> jsnum" where
  "mirrored c = (isPlaying c, isLoading c, hasError c, duration c, currentTime c)"

text \<open>
  The position of a click on the progress bar:
  \<^verbatim>\<open>
  const rect = progressRef.current.getBoundingClientRect();
  const pos = Math.max(0, Math.min(1, (e.clientX - rect.left) / rect.width));
  \<close>
\<close>

definition click_pos :: "jsnum \<Rightarrow> rect \<Rightarrow> jsnum" where
  "click_pos clientX r =
     Math_max (Fin 0) (Math_min (Fin 1) (js_div (js_sub clientX (rect_left r)) (rect_width r)))"

text \<open>
  What the video area of the card shows (in the first version, the video area of the
  desktop block): \<open>hasError ? <div>Failed to load video</div> : <video .../>\<close>.
\<close>

datatype surface = Failed_to_load_video | Video

definition video_area :: "'a reel_state_scheme \<Rightarrow> surface" where
  "video_area c = (if hasError c then Failed_to_load_video else Video)"

subsection \<open>First version: a desktop and a mobile element\<close>

text \<open>
  Every handler starts with \<open>const video = desktopVideoRef.current || mobileVideoRef.current\<close>.
  \<open>current_v1\<close> is that element together with the reference it came from, \<open>store_v1\<close>
  writes the element back where it came from.
\<close>

datatype slot = Desktop | Mobile

definition current_v1 :: "card_v1 \<Rightarrow> (slot \<times> video) option" where
  "current_v1 c =
     (case desktopVideoRef c of
        Some v \<Rightarrow> Some (Desktop, v)
      | None \<Rightarrow> (case mobileVideoRef c of Some v \<Rightarrow> Some (Mobile, v) | None \<Rightarrow> None))"

fun store_v1 :: "slot \<Rightarrow> video \<Rightarrow> card_v1 \<Rightarrow> card_v1" where
  "store_v1 Desktop v c = c\<lparr>desktopVideoRef := Some v\<rparr>"
| "store_v1 Mobile v c = c\<lparr>mobileVideoRef := Some v\<rparr>"

text \<open>
  \<^verbatim>\<open>
  const handleTimeUpdate = useCallback(() => {
    const video = desktopVideoRef.current || mobileVideoRef.current;
    if (!video) return;
    setCurrentTime(video.currentTime);
    setProgress((video.currentTime / (video.duration || 1)) * 100);
  }, []);
  \<close>
\<close>

definition handleTimeUpdate_v1 :: "card_v1 \<Rightarrow> card_v1" where
  "handleTimeUpdate_v1 c =
     (case current_v1 c of
        None \<Rightarrow> c
      | Some (s, video) \<Rightarrow>
          c\<lparr>currentTime := video_currentTime video,
            progressPercent :=
              js_mul (js_div (video_currentTime video) (js_or (video_duration video) (Fin 1)))
                (Fin 100)\<rparr>)"

text \<open>
  \<^verbatim>\<open>
  const togglePlay = () => {
    const video = desktopVideoRef.current || mobileVideoRef.current;
    if (!video) return;
    if (video.paused) video.play().catch(console.error);
    else video.pause();
  };
  \<close>
\<close>

definition togglePlay_v1 :: "play_outcome \<Rightarrow> card_v1 \<Rightarrow> card_v1" where
  "togglePlay_v1 outcome c =
     (case current_v1 c of
        None \<Rightarrow> c
      | Some (s, video) \<Rightarrow>
          if video_paused video
          then (store_v1 s (play outcome video) c)\<lparr>console := console c @ rejection outcome\<rparr>
          else store_v1 s (pause video) c)"

text \<open>
  \<^verbatim>\<open>
  const toggleMute = () => {
    const video = desktopVideoRef.current || mobileVideoRef.current;
    if (!video) return;
    video.muted = !video.muted;
    setIsMuted(video.muted);
  };
  \<close>
\<close>

definition toggleMute_v1 :: "card_v1 \<Rightarrow> card_v1" where
  "toggleMute_v1 c =
     (case current_v1 c of
        None \<Rightarrow> c
      | Some (s, video) \<Rightarrow>
          (let video' = video\<lparr>video_muted := \<not> video_muted video\<rparr>
           in (store_v1 s video' c)\<lparr>isMuted := video_muted video'\<rparr>))"

text \<open>
  \<^verbatim>\<open>
  const handleProgressClick = (e: React.MouseEvent<HTMLDivElement>) => {
    const video = desktopVideoRef.current || mobileVideoRef.current;
    if (!progressRef.current || !video) return;
    const rect = progressRef.current.getBoundingClientRect();
    const pos = Math.max(0, Math.min(1, (e.clientX - rect.left) / rect.width));
    video.currentTime = pos * video.duration;
  };
  \<close>
\<close>

definition handleProgressClick_v1 :: "jsnum \<Rightarrow> card_v1 \<Rightarrow> error + card_v1" where
  "handleProgressClick_v1 clientX c =
     (case (progressRef c, current_v1 c) of
        (Some r, Some (s, video)) \<Rightarrow>
          (case assign_currentTime (js_mul (click_pos clientX r) (video_duration video)) video of
             Inl e \<Rightarrow> Inl e
           | Inr video' \<Rightarrow> Inr (store_v1 s video' c))
      | _ \<Rightarrow> Inr c)"

text \<open>
  React detaches a reference when the element that carries it leaves the tree. The desktop
  \<open><video>\<close> is rendered only while \<open>hasError\<close> is false (lines 116-132); the mobile one
  always (lines 179-189). \<open>render_v1\<close> is the effect of the render that follows a state
  change on the two references, and \<open>error_event_v1\<close> the dispatch of an \<open>error\<close> event
  followed by that render.
\<close>

definition render_v1 :: "card_v1 \<Rightarrow> card_v1" where
  "render_v1 c = (if hasError c then c\<lparr>desktopVideoRef := None\<rparr> else c)"

definition error_event_v1 :: "card_v1 \<Rightarrow> card_v1" where
  "error_event_v1 c = render_v1 (handleError c)"

definition mount_v1 :: "video \<Rightarrow> video \<Rightarrow> rect \<Rightarrow> card_v1" where
  "mount_v1 desktop mobile r =
     \<lparr>isPlaying = False, progressPercent = Fin 0, duration = Fin 0, currentTime = Fin 0,
      isMuted = False, showControls = False, isLoading = True, hasError = False,
      progressRef = Some r, console = [],
      desktopVideoRef = Some desktop, mobileVideoRef = Some mobile\<rparr>"

subsection \<open>Second version: a single element\<close>

text \<open>
  \<^verbatim>\<open>
  const handleTimeUpdate = useCallback(() => {
    const video = videoRef.current;
    if (!video) return;
    setCurrentTime(video.currentTime);
    setProgress((video.currentTime / (video.duration || 1)) * 100);
  }, []);
  \<close>
\<close>

definition handleTimeUpdate_v2 :: "card_v2 \<Rightarrow> card_v2" where
  "handleTimeUpdate_v2 c =
     (case videoRef_v2 c of
        None \<Rightarrow> c
      | Some video \<Rightarrow>
          c\<lparr>currentTime := video_currentTime video,
            progressPercent :=
              js_mul (js_div (video_currentTime video) (js_or (video_duration video) (Fin 1)))
                (Fin 100)\<rparr>)"

text \<open>
  \<^verbatim>\<open>
  const togglePlay = () => {
    const video = videoRef.current;
    if (!video) return;
    if (video.paused) video.play().catch(console.error);
    else video.pause();
  };
  \<close>
\<close>

definition togglePlay_v2 :: "play_outcome \<Rightarrow> card_v2 \<Rightarrow> card_v2" where
  "togglePlay_v2 outcome c =
     (case videoRef_v2 c of
        None \<Rightarrow> c
      | Some video \<Rightarrow>
          if video_paused video
          then c\<lparr>videoRef_v2 := Some (play outcome video), console := console c @ rejection outcome\<rparr>
          else c\<lparr>videoRef_v2 := Some (pause video)\<rparr>)"

text \<open>
  \<^verbatim>\<open>
  const toggleMute = () => {
    const video = videoRef.current;
    if (!video) return;
    video.muted = !video.muted;
    setIsMuted(video.muted);
  };
  \<close>
\<close>

definition toggleMute_v2 :: "card_v2 \<Rightarrow> card_v2" where
  "toggleMute_v2 c =
     (case videoRef_v2 c of
        None \<Rightarrow> c
      | Some video \<Rightarrow>
          (let video' = video\<lparr>video_muted := \<not> video_muted video\<rparr>
           in c\<lparr>videoRef_v2 := Some video', isMuted := video_muted video'\<rparr>))"

text \<open>
  \<^verbatim>\<open>
  const handleProgressClick = (e: React.MouseEvent<HTMLDivElement>) => {
    if (!progressRef.current || !videoRef.current) return;
    const rect = progressRef.current.getBoundingClientRect();
    const pos = Math.max(0, Math.min(1, (e.clientX - rect.left) / rect.width));
    videoRef.current.currentTime = pos * videoRef.current.duration;
  };
  \<close>
\<close>

definition handleProgressClick_v2 :: "jsnum \<Rightarrow> card_v2 \<Rightarrow> error + card_v2" where
  "handleProgressClick_v2 clientX c =
     (case (progressRef c, videoRef_v2 c) of
        (Some r, Some video) \<Rightarrow>
          (case assign_currentTime (js_mul (click_pos clientX r) (video_duration video)) video of
             Inl e \<Rightarrow> Inl e
           | Inr video' \<Rightarrow> Inr (c\<lparr>videoRef_v2 := Some video'\<rparr>))
      | _ \<Rightarrow> Inr c)"

text \<open>The only \<open><video>\<close> is rendered while \<open>hasError\<close> is false (lines 352-370).\<close>

definition render_v2 :: "card_v2 \<Rightarrow> card_v2" where
  "render_v2 c = (if hasError c then c\<lparr>videoRef_v2 := None\<rparr> else c)"

definition error_event_v2 :: "card_v2 \<Rightarrow> card_v2" where
  "error_event_v2 c = render_v2 (handleError c)"

definition mount_v2 :: "video \<Rightarrow> rect \<Rightarrow> card_v2" where
  "mount_v2 video r =
     \<lparr>isPlaying = False, progressPercent = Fin 0, duration = Fin 0, currentTime = Fin 0,
      isMuted = False, showControls = False, isLoading = True, hasError = False,
      progressRef = Some r, console = [], videoRef_v2 = Some video\<rparr>"

text \<open>
  The effect that loads the source (lines 267-272), with \<open>videoSrc = reel.reel\<close>:
  \<^verbatim>\<open>
  useEffect(() => {
    if (!videoSrc || !videoRef.current) return;
    setIsLoading(true);
    setHasError(false);
    videoRef.current.load();
  }, [videoSrc]);
  \<close>
  It depends on the source alone, and a card keeps its reel for life: \<open>MotionReelCard\<close> is
  declared inside the render of the section, so that a new render of the section mounts
  new cards. The effect therefore runs once for a card, after \<open>mount_v2\<close>.
\<close>

definition loadEffect_v2 :: "string \<Rightarrow> card_v2 \<Rightarrow> card_v2" where
  "loadEffect_v2 videoSrc c =
     (if videoSrc = [] then c
      else case videoRef_v2 c of
             None \<Rightarrow> c
           | Some video \<Rightarrow>
               c\<lparr>isLoading := True, hasError := False, videoRef_v2 := Some (load video)\<rparr>)"

section \<open>The gallery\<close>

text \<open>
  Each card is a component instance with its own cells and references: an event or a
  gesture on the card at position \<open>i\<close> runs a handler of that card on that card's state.
\<close>

definition on_card :: "nat \<Rightarrow> ('c \<Rightarrow> 'c) \<Rightarrow> 'c list \<Rightarrow> 'c list" where
  "on_card i handler cards = (if i < length cards then cards[i := handler (cards ! i)] else cards)"

text \<open>
  The property \<open>data\<close> is \<open>null\<close>, one reel or an array of reels. The named file and the
  first version of \<open>part_000\<close> normalise it with
  \<^verbatim>\<open>const videos = Array.isArray(data) ? data : data ? [data] : [];\<close>
  and the second version of \<open>part_000\<close> with
  \<^verbatim>\<open>const videos: Reel[] = data ? Array.isArray(data) ? data : [data] : [];\<close>
  An array is truthy, and so is a reel (an object).
\<close>

datatype 'a data = Null | One 'a | Array "'a list"

fun isArray :: "'a data \<Rightarrow> bool" where
  "isArray (Array xs) = True"
| "isArray _ = False"

fun elements :: "'a data \<Rightarrow> 'a list" where
  "elements (Array xs) = xs"
| "elements _ = []"

fun single :: "'a data \<Rightarrow> 'a list" where
  "single (One x) = [x]"
| "single _ = []"

definition videos :: "'a data \<Rightarrow> 'a list" where
  "videos d = (if isArray d then elements d else if d \<noteq> Null then single d else [])"

definition videos_v2 :: "'a data \<Rightarrow> 'a list" where
  "videos_v2 d = (if d \<noteq> Null then (if isArray d then elements d else single d) else [])"

text \<open>
  What a section renders. Both versions of \<open>part_000\<close> return the paragraph
  \<open>No videos available\<close> for an empty list and otherwise map the list to cards, in order
  (\<open>videos.map\<close>). The named file has no such branch: it maps the rows of
  \<open>chunkByPattern(videos)\<close> to grids and each row to cards, the rows of even index as
  portrait rows (\<open>const isPortraitRow = rowIndex % 2 === 0\<close>).
\<close>

datatype 'a view =
    No_videos_available
  | Grid "'a list"
  | Rows "('a \<times> bool) list list"

definition MotionReelSection_v2 :: "'a data \<Rightarrow> 'a view" where
  "MotionReelSection_v2 d =
     (if length (videos_v2 d) = 0 then No_videos_available else Grid (videos_v2 d))"

definition MotionReelSection_v1 :: "'a data \<Rightarrow> 'a view" where
  "MotionReelSection_v1 d =
     (if length (videos d) = 0 then No_videos_available else Grid (videos d))"

definition MotionReelSection :: "'a data \<Rightarrow> 'a view" where
  "MotionReelSection d =
     Rows (map (\<lambda>(rowIndex, row). map (\<lambda>reel. (reel, rowIndex mod 2 = 0)) row)
            (enumerate 0 (chunkByPattern (videos d))))"

text \<open>The cards of a view, in the order of the document.\<close>

fun cards_of :: "'a view \<Rightarrow> 'a list" where
  "cards_of No_videos_available = []"
| "cards_of (Grid xs) = xs"
| "cards_of (Rows rs) = map fst (concat rs)"

section \<open>Properties of the chunking rule\<close>

lemma pattern_length: "length pattern = 2"
  by (simp add: pattern_def)

lemma pattern_slot: "pattern ! (i mod length pattern) = (if even i then 3 else 2)"
  unfolding pattern_length by (simp add: pattern_def mod_2_eq_odd)

lemma chunk_rows_Nil: "chunk_rows i [] = []"
  by (simp add: chunk_rows.simps)

lemma chunk_rows_Cons:
  "xs \<noteq> [] \<Longrightarrow> chunk_rows i xs =
     take (pattern ! (i mod length pattern)) xs
       # chunk_rows (Suc i) (drop (pattern ! (i mod length pattern)) xs)"
  by (subst chunk_rows.simps) simp

lemma chunk_rows_concat: "concat (chunk_rows i xs) = xs"
proof (induction i xs rule: chunk_rows.induct)
  case (1 i items)
  show ?case
  proof (cases "items = []")
    case True
    then show ?thesis by (simp add: chunk_rows_Nil)
  next
    case False
    then show ?thesis using 1 by (simp add: chunk_rows_Cons)
  qed
qed

lemma chunk_rows_nonempty: "r \<in> set (chunk_rows i xs) \<Longrightarrow> r \<noteq> []"
proof (induction i xs rule: chunk_rows.induct)
  case (1 i items)
  show ?case
  proof (cases "items = []")
    case True
    with 1 show ?thesis by (simp add: chunk_rows_Nil)
  next
    case False
    have pos: "0 < pattern ! (i mod length pattern)" by (simp add: pattern_slot)
    from 1(2) False have "r = take (pattern ! (i mod length pattern)) items
        \<or> r \<in> set (chunk_rows (i + 1) (drop (pattern ! (i mod length pattern)) items))"
      by (simp add: chunk_rows_Cons)
    then show ?thesis
    proof
      assume "r = take (pattern ! (i mod length pattern)) items"
      then show ?thesis using False pos by simp
    next
      assume "r \<in> set (chunk_rows (i + 1) (drop (pattern ! (i mod length pattern)) items))"
      then show ?thesis using 1(1) False by simp
    qed
  qed
qed

lemma chunk_rows_sizes:
  "j < length (chunk_rows i xs) \<Longrightarrow>
     length (chunk_rows i xs ! j) \<le> pattern ! ((i + j) mod length pattern) \<and>
     (Suc j < length (chunk_rows i xs) \<longrightarrow>
        length (chunk_rows i xs ! j) = pattern ! ((i + j) mod length pattern))"
proof (induction i xs arbitrary: j rule: chunk_rows.induct)
  case (1 i items)
  show ?case
  proof (cases "items = []")
    case True
    with 1(2) show ?thesis by (simp add: chunk_rows_Nil)
  next
    case False
    let ?n = "pattern ! (i mod length pattern)"
    have eq: "chunk_rows i items = take ?n items # chunk_rows (Suc i) (drop ?n items)"
      using False by (rule chunk_rows_Cons)
    show ?thesis
    proof (cases j)
      case 0
      have "Suc 0 < length (chunk_rows i items) \<Longrightarrow> ?n \<le> length items"
      proof -
        assume "Suc 0 < length (chunk_rows i items)"
        then have "chunk_rows (Suc i) (drop ?n items) \<noteq> []" using eq by auto
        then have "drop ?n items \<noteq> []" using chunk_rows_Nil by metis
        then show "?n \<le> length items" by simp
      qed
      then show ?thesis using 0 eq by auto
    next
      case (Suc k)
      then have "k < length (chunk_rows (i + 1) (drop ?n items))" using 1(2) eq by simp
      from 1(1)[OF False this] show ?thesis using Suc eq by simp
    qed
  qed
qed

lemma chunk_rows_five: "length xs = 5 \<Longrightarrow> map length (chunk_rows 0 xs) = [3, 2]"
proof -
  assume "length xs = 5"
  then obtain a b c d e where "xs = [a, b, c, d, e]"
    by (auto simp: length_Suc_conv eval_nat_numeral)
  then show ?thesis
    by (simp add: chunk_rows_Cons chunk_rows_Nil pattern_def)
qed

lemma chunk_rows_seven: "length xs = 7 \<Longrightarrow> map length (chunk_rows 0 xs) = [3, 2, 2]"
proof -
  assume "length xs = 7"
  then obtain a b c d e f g where "xs = [a, b, c, d, e, f, g]"
    by (auto simp: length_Suc_conv eval_nat_numeral)
  then show ?thesis
    by (simp add: chunk_rows_Cons chunk_rows_Nil pattern_def)
qed

text \<open>
  Claim C1. \<open>chunkByPattern\<close> is a total function of the list: it returns rows for every
  finite input. The empty list gives no rows; five items give rows of sizes 3, 2 and
  seven items rows of sizes 3, 2, 2; the rows, read one after the other, are the input
  list itself, so that the order of the rows and the order inside each row are those of
  the input and no item is dropped or repeated; no row is empty, row \<open>j\<close> holds at most
  \<open>pattern[j % pattern.length]\<close> items, and exactly that many unless it is the last row.
\<close>

theorem chunkByPattern_partitions:
  "chunkByPattern ([] :: 'a list) = []
   \<and> (length xs = 5 \<longrightarrow> map length (chunkByPattern xs) = [3, 2])
   \<and> (length xs = 7 \<longrightarrow> map length (chunkByPattern xs) = [3, 2, 2])
   \<and> concat (chunkByPattern xs) = (xs :: 'a list)
   \<and> (\<forall>j < length (chunkByPattern xs).
         chunkByPattern xs ! j \<noteq> []
         \<and> length (chunkByPattern xs ! j) \<le> pattern ! (j mod length pattern)
         \<and> (Suc j < length (chunkByPattern xs) \<longrightarrow>
              length (chunkByPattern xs ! j) = pattern ! (j mod length pattern)))"
proof -
  have "\<forall>j < length (chunk_rows 0 xs). chunk_rows 0 xs ! j \<noteq> []"
    using chunk_rows_nonempty[of _ 0 xs] by (meson nth_mem)
  moreover have "\<forall>j < length (chunk_rows 0 xs).
      length (chunk_rows 0 xs ! j) \<le> pattern ! (j mod length pattern)
      \<and> (Suc j < length (chunk_rows 0 xs) \<longrightarrow>
           length (chunk_rows 0 xs ! j) = pattern ! (j mod length pattern))"
    using chunk_rows_sizes[of _ 0 xs] by simp
  ultimately show ?thesis
    unfolding chunkByPattern_def
    using chunk_rows_five[of xs] chunk_rows_seven[of xs]
    by (simp add: chunk_rows_Nil chunk_rows_concat)
qed

theorem chunkByPattern_partitions_witness:
  "map length (chunkByPattern [10, 11, 12, 13, 14 :: nat]) = [3, 2]
   \<and> map length (chunkByPattern [10, 11, 12, 13, 14, 15, 16 :: nat]) = [3, 2, 2]
   \<and> concat (chunkByPattern [10, 11, 12, 13, 14, 15, 16 :: nat]) = [10, 11, 12, 13, 14, 15, 16]
   \<and> chunkByPattern [10, 11, 12, 13, 14, 15, 16 :: nat] = [[10, 11, 12], [13, 14], [15, 16]]
   \<and> length (chunkByPattern [10, 11, 12, 13, 14, 15, 16 :: nat] ! 1) = pattern ! (1 mod length pattern)"
proof -
  have five: "length [10, 11, 12, 13, 14 :: nat] = 5" by simp
  have seven: "length [10, 11, 12, 13, 14, 15, 16 :: nat] = 7" by simp
  have rows: "chunkByPattern [10, 11, 12, 13, 14, 15, 16 :: nat] = [[10, 11, 12], [13, 14], [15, 16]]"
    by (simp add: chunkByPattern_def chunk_rows_Cons chunk_rows_Nil pattern_def)
  have "\<forall>j < length (chunkByPattern [10, 11, 12, 13, 14, 15, 16 :: nat]).
          Suc j < length (chunkByPattern [10, 11, 12, 13, 14, 15, 16 :: nat]) \<longrightarrow>
            length (chunkByPattern [10, 11, 12, 13, 14, 15, 16 :: nat] ! j) = pattern ! (j mod length pattern)"
    using chunkByPattern_partitions[of "[10, 11, 12, 13, 14, 15, 16 :: nat]"] by blast
  moreover have "Suc 1 < length (chunkByPattern [10, 11, 12, 13, 14, 15, 16 :: nat])"
    by (simp add: rows)
  ultimately have "length (chunkByPattern [10, 11, 12, 13, 14, 15, 16 :: nat] ! 1) = pattern ! (1 mod length pattern)"
    by (metis Suc_lessD)
  then show ?thesis
    using chunkByPattern_partitions[of "[10, 11, 12, 13, 14 :: nat]"]
      chunkByPattern_partitions[of "[10, 11, 12, 13, 14, 15, 16 :: nat]"] five seven rows
    by simp
qed

section \<open>Properties of the time format\<close>

lemma floor_div_60: "\<lfloor>t / 60\<rfloor> = \<lfloor>t :: real\<rfloor> div 60"
  using floor_divide_real_eq_div[of 60 t] by simp

lemma decimal_digit: "n < 10 \<Longrightarrow> decimal n = [digit n]"
  by (simp add: decimal.simps)

lemma decimal_two:
  "n < 100 \<Longrightarrow> (if n < 10 then ''0'' else '''') @ decimal n = [digit (n div 10), digit (n mod 10)]"
  by (subst decimal.simps) (auto simp: decimal_digit digit_def)

lemma toString_int:
  "0 \<le> k \<Longrightarrow> k < 2 ^ 53 \<Longrightarrow> toString (Fin (of_int k)) = Some (decimal (nat k))"
  by simp

lemma formatTime_finite:
  assumes "0 \<le> t" "t < 2 ^ 53"
  shows "formatTime (Fin t) =
     Some (decimal (nat \<lfloor>t / 60\<rfloor>) @ '':'' @
        [digit (nat \<lfloor>t\<rfloor> mod 60 div 10), digit (nat \<lfloor>t\<rfloor> mod 60 mod 10)])"
proof -
  define m where "m = \<lfloor>t / 60\<rfloor>"
  define s where "s = \<lfloor>t\<rfloor> mod 60"
  have m0: "0 \<le> m" using assms by (simp add: m_def)
  have "t / 60 < 2 ^ 53" using assms by simp
  then have m1: "m < 2 ^ 53" unfolding m_def by (simp add: floor_less_iff)
  have tr: "trunc (t / 60) = m" using assms by (simp add: trunc_def m_def)
  have "\<lfloor>t - 60 * of_int m\<rfloor> = \<lfloor>t\<rfloor> - 60 * m"
    by (metis floor_diff_of_int of_int_mult of_int_numeral)
  also have "\<dots> = s" unfolding s_def m_def floor_div_60
    by (simp add: minus_mult_div_eq_mod)
  finally have sec: "\<lfloor>t - 60 * of_int m\<rfloor> = s" .
  have s0: "0 \<le> s" and s60: "s < 60" by (simp_all add: s_def)
  have s1: "s < 2 ^ 53" using s60 by simp
  have ex: "exact_time (Fin t)" using assms by simp
  have ns: "nat s = nat \<lfloor>t\<rfloor> mod 60" using assms
    by (simp add: s_def nat_mod_distrib)
  have minutes: "Math_floor (js_div (Fin t) (Fin 60)) = Fin (of_int m)"
    by (simp add: m_def)
  have seconds: "Math_floor (js_mod (Fin t) (Fin 60)) = Fin (of_int s)"
    by (simp add: tr sec)
  have lt: "js_lt (Fin (of_int s)) (Fin 10) = (nat s < 10)"
    using s0 by auto
  have "formatTime (Fin t) =
      Some (decimal (nat m) @ '':'' @ (if nat s < 10 then ''0'' else '''') @ decimal (nat s))"
    unfolding formatTime_def Let_def minutes seconds lt
      toString_int[OF m0 m1] toString_int[OF s0 s1]
    using ex by simp
  also have "(if nat s < 10 then ''0'' else '''') @ decimal (nat s)
      = [digit (nat s div 10), digit (nat s mod 10)]"
    using s0 s60 by (intro decimal_two) simp
  finally show ?thesis by (simp add: ns m_def)
qed

text \<open>
  Claim C3, as the code has it. \<open>formatTime(0)\<close> is \<open>0:00\<close> and \<open>formatTime(65)\<close> is
  \<open>1:05\<close>; for every finite time from 0 up to \<open>2\<^sup>5\<^sup>3\<close> seconds the result is the
  whole minutes in decimal without padding, a colon, and the whole seconds modulo 60 as
  exactly two digits. The function has no guard for a number that is not finite: NaN is
  rendered as \<open>NaN:NaN\<close> and an infinite time as \<open>Infinity:NaN\<close>.
\<close>

theorem formatTime_renders:
  "formatTime (Fin 0) = Some ''0:00''
   \<and> formatTime (Fin 65) = Some ''1:05''
   \<and> (0 \<le> t \<and> t < 2 ^ 53 \<longrightarrow>
        formatTime (Fin t) =
          Some (decimal (nat \<lfloor>t / 60\<rfloor>) @ '':'' @
                [digit (nat \<lfloor>t\<rfloor> mod 60 div 10), digit (nat \<lfloor>t\<rfloor> mod 60 mod 10)]))
   \<and> formatTime NaN = Some ''NaN:NaN''
   \<and> formatTime PInf = Some ''Infinity:NaN''"
proof -
  have "formatTime (Fin 0) = Some ''0:00''"
    using formatTime_finite[of 0] by (simp add: decimal.simps digit_def)
  moreover have "formatTime (Fin 65) = Some ''1:05''"
    using formatTime_finite[of 65] by (simp add: decimal.simps digit_def)
  moreover have "formatTime NaN = Some ''NaN:NaN''"
    by (simp add: formatTime_def)
  moreover have "formatTime PInf = Some ''Infinity:NaN''"
    by (simp add: formatTime_def)
  ultimately show ?thesis using formatTime_finite[of t] by simp
qed

theorem formatTime_renders_witness:
  "(0::real) \<le> 3725.5 \<and> (3725.5::real) < 2 ^ 53 \<and> formatTime (Fin 3725.5) = Some ''62:05''"
proof -
  have h: "(0::real) \<le> 3725.5 \<and> (3725.5::real) < 2 ^ 53" by simp
  have m: "\<lfloor>3725.5 / 60 :: real\<rfloor> = 62" by (simp add: floor_eq_iff)
  have s: "\<lfloor>3725.5 :: real\<rfloor> = 3725" by (simp add: floor_eq_iff)
  have "decimal 62 = ''62''" by (simp add: decimal.simps digit_def)
  then show ?thesis
    using formatTime_renders[of "3725.5"] h m s by (simp add: digit_def)
qed

text \<open>
  Claim C3 as stated asks for a placeholder such as \<open>0:00\<close>, and never \<open>NaN:NaN\<close>, when
  the input is NaN. The input NaN gives \<open>minutes = NaN\<close> and \<open>seconds = NaN\<close>, the test
  \<open>seconds < 10\<close> is false, and the template prints both numbers by name.
\<close>

theorem formatTime_NaN_counterexample:
  "formatTime NaN = Some ''NaN:NaN''"
  by (simp add: formatTime_def)

section \<open>Properties of the progress value\<close>

lemma js_or_one: "js_or d (Fin 1) \<noteq> Fin 0 \<and> js_or d (Fin 1) \<noteq> NaN"
  by (cases d) (auto simp: js_or_def)

lemma js_or_unknown: "d = Fin 0 \<or> d = NaN \<Longrightarrow> js_or d (Fin 1) = Fin 1"
  by (auto simp: js_or_def)

lemma js_div_one: "js_div x (Fin 1) = x"
  by (cases x) auto

lemma ratio_known:
  "0 < d \<Longrightarrow> js_div (Fin t) (js_or (Fin d) (Fin 1)) = Fin (t / d)"
  by (simp add: js_or_def)

text \<open>
  Claim C2, as the code has it. The progress is the quotient of the element's current time
  by \<open>duration || 1\<close>, taken as it is: no handler clamps it. The divisor is never 0 and
  never NaN, so the quotient is never a division by zero; when the duration is 0 or NaN
  the divisor is 1 and the progress is the current time itself. The progress lies between
  0 and 1 when the current time lies between 0 and a positive finite duration. In
  \<open>part_000\<close> the cell holds that quotient times 100, between 0 and 100 under the same
  condition, and \<open>currentTime\<close> holds the element's current time.
\<close>

theorem progress_is_unclamped_ratio:
  assumes "videoRef c = Some v" and "current_v1 c1 = Some (s, v1)"
  shows "js_or (video_duration v) (Fin 1) \<noteq> Fin 0 \<and> js_or (video_duration v) (Fin 1) \<noteq> NaN
    \<and> progress (handleProgress c)
        = js_div (video_currentTime v) (js_or (video_duration v) (Fin 1))
    \<and> (video_duration v = Fin 0 \<or> video_duration v = NaN \<longrightarrow>
         progress (handleProgress c) = video_currentTime v)
    \<and> (video_currentTime v = Fin t \<and> video_duration v = Fin d \<and> 0 \<le> t \<and> t \<le> d \<and> 0 < d \<longrightarrow>
         progress (handleProgress c) = Fin (t / d) \<and> in_unit (progress (handleProgress c)))
    \<and> currentTime (handleTimeUpdate_v1 c1) = video_currentTime v1
    \<and> progressPercent (handleTimeUpdate_v1 c1)
        = js_mul (js_div (video_currentTime v1) (js_or (video_duration v1) (Fin 1))) (Fin 100)
    \<and> (video_currentTime v1 = Fin t \<and> video_duration v1 = Fin d \<and> 0 \<le> t \<and> t \<le> d \<and> 0 < d \<longrightarrow>
         progressPercent (handleTimeUpdate_v1 c1) = Fin (t / d * 100)
         \<and> 0 \<le> t / d * 100 \<and> t / d * 100 \<le> 100)"
proof -
  have p: "progress (handleProgress c)
      = js_div (video_currentTime v) (js_or (video_duration v) (Fin 1))"
    using assms(1) by (simp add: handleProgress_def)
  have q: "progressPercent (handleTimeUpdate_v1 c1)
      = js_mul (js_div (video_currentTime v1) (js_or (video_duration v1) (Fin 1))) (Fin 100)"
    and q': "currentTime (handleTimeUpdate_v1 c1) = video_currentTime v1"
    using assms(2) by (simp_all add: handleTimeUpdate_v1_def)
  have unknown: "video_duration v = Fin 0 \<or> video_duration v = NaN \<Longrightarrow>
      progress (handleProgress c) = video_currentTime v"
    using p by (simp add: js_or_unknown js_div_one)
  have known: "progress (handleProgress c) = Fin (t / d) \<and> in_unit (progress (handleProgress c))"
    if "video_currentTime v = Fin t" "video_duration v = Fin d" "0 \<le> t" "t \<le> d" "0 < d"
    using that p by (simp add: ratio_known)
  have known1: "progressPercent (handleTimeUpdate_v1 c1) = Fin (t / d * 100)
         \<and> 0 \<le> t / d * 100 \<and> t / d * 100 \<le> 100"
    if "video_currentTime v1 = Fin t" "video_duration v1 = Fin d" "0 \<le> t" "t \<le> d" "0 < d"
  proof -
    have "0 \<le> t / d * 100" and "t / d * 100 \<le> 100"
      using that by (simp_all add: field_simps)
    then show ?thesis using that q by (simp add: ratio_known)
  qed
  show ?thesis
    using js_or_one[of "video_duration v"] p q q' unknown known known1 by blast
qed

theorem progress_is_unclamped_ratio_witness:
  "progress (handleProgress (mount (new_video\<lparr>video_currentTime := Fin 5, video_duration := Fin 10\<rparr>)))
     = Fin (1 / 2)
   \<and> progressPercent (handleTimeUpdate_v1
        (mount_v1 (new_video\<lparr>video_currentTime := Fin 5, video_duration := Fin 10\<rparr>) new_video
           \<lparr>rect_left = Fin 0, rect_width = Fin 100\<rparr>))
     = Fin 50"
proof -
  define v where "v = new_video\<lparr>video_currentTime := Fin 5, video_duration := Fin 10\<rparr>"
  define r where "r = \<lparr>rect_left = Fin 0, rect_width = Fin 100\<rparr>"
  have a: "videoRef (mount v) = Some (v\<lparr>video_muted := True\<rparr>)"
    by (simp add: mount_def)
  have b: "current_v1 (mount_v1 v new_video r) = Some (Desktop, v)"
    by (simp add: current_v1_def mount_v1_def)
  have t: "video_currentTime (v\<lparr>video_muted := True\<rparr>) = Fin 5
      \<and> video_duration (v\<lparr>video_muted := True\<rparr>) = Fin 10 \<and> (0::real) \<le> 5 \<and> (5::real) \<le> 10 \<and> (0::real) < 10"
    and t1: "video_currentTime v = Fin 5 \<and> video_duration v = Fin 10"
    by (simp_all add: v_def)
  show ?thesis
    using progress_is_unclamped_ratio[OF a b, of 5 10] t t1
    unfolding v_def r_def by (simp add: js_or_def)
qed

text \<open>
  Claim C2 as stated puts the progress between 0 and 1 for all values the element reports,
  an unknown duration included. With an unknown duration (NaN) and the current time 2,
  \<open>handleProgress\<close> divides 2 by 1 and stores 2. And \<open>handleTimeUpdate\<close> of \<open>part_000\<close> stores a
  percentage: 50 at the current time 5 of a duration of 10.
\<close>

theorem progress_counterexample:
  "progress (handleProgress (mount (new_video\<lparr>video_currentTime := Fin 2\<rparr>))) = Fin 2
   \<and> \<not> in_unit (Fin 2)
   \<and> progressPercent (handleTimeUpdate_v1
        (mount_v1 (new_video\<lparr>video_currentTime := Fin 5, video_duration := Fin 10\<rparr>) new_video
           \<lparr>rect_left = Fin 0, rect_width = Fin 100\<rparr>))
     = Fin 50
   \<and> \<not> in_unit (Fin 50)"
  by (simp add: handleProgress_def handleTimeUpdate_v1_def current_v1_def mount_def mount_v1_def
      new_video_def js_or_def)

section \<open>Properties of the seek handlers\<close>

lemma clamp_unit:
  "Math_max (Fin 0) (Math_min (Fin 1) y) = NaN \<or> in_unit (Math_max (Fin 0) (Math_min (Fin 1) y))"
  by (cases y) auto

lemma click_pos_unit: "click_pos x r = NaN \<or> in_unit (click_pos x r)"
  unfolding click_pos_def by (rule clamp_unit)

lemma handleSeek_attached:
  "videoRef c = Some v \<Longrightarrow>
     handleSeek val c =
       (if isFinite (js_mul val (video_duration v))
        then Inr (c\<lparr>videoRef := Some (v\<lparr>video_currentTime := js_mul val (video_duration v)\<rparr>),
                    progress := val\<rparr>)
        else Inl TypeError)"
  by (simp add: handleSeek_def assign_currentTime_def)

lemma handleProgressClick_v1_attached:
  "progressRef c = Some r \<Longrightarrow> current_v1 c = Some (s, v) \<Longrightarrow>
     handleProgressClick_v1 x c =
       (if isFinite (js_mul (click_pos x r) (video_duration v))
        then Inr (store_v1 s (v\<lparr>video_currentTime := js_mul (click_pos x r) (video_duration v)\<rparr>) c)
        else Inl TypeError)"
  by (simp add: handleProgressClick_v1_def assign_currentTime_def)

lemma handleProgressClick_v2_attached:
  "progressRef c = Some r \<Longrightarrow> videoRef_v2 c = Some v \<Longrightarrow>
     handleProgressClick_v2 x c =
       (if isFinite (js_mul (click_pos x r) (video_duration v))
        then Inr (c\<lparr>videoRef_v2 := Some (v\<lparr>video_currentTime := js_mul (click_pos x r) (video_duration v)\<rparr>)\<rparr>)
        else Inl TypeError)"
  by (simp add: handleProgressClick_v2_def assign_currentTime_def)

text \<open>
  Claim C4 (a defect of the seek handlers). While the duration is unknown (NaN, before the
  metadata are loaded) a seek is not a no-op: both handlers multiply the fraction by the
  duration and assign the product, NaN, to the element's current time, and the assignment
  throws a \<open>TypeError\<close> that nothing catches; in the named file the call of \<open>setProgress\<close>
  after it is not reached. \<open>handleProgress\<close> guards the same unknown duration with
  \<open>duration || 1\<close>. The rest of the claim holds on the same cards once the duration is
  known: a click beyond the end of the bar is clamped to the position 1, and the handlers
  assign fraction times duration.
\<close>

theorem seek_with_unknown_duration_throws:
  "handleSeek (Fin (1 / 2)) (mount new_video) = Inl TypeError
   \<and> handleProgressClick_v1 (Fin 50)
        (mount_v1 new_video new_video \<lparr>rect_left = Fin 0, rect_width = Fin 100\<rparr>)
      = Inl TypeError
   \<and> handleProgressClick_v2 (Fin 50) (mount_v2 new_video \<lparr>rect_left = Fin 0, rect_width = Fin 100\<rparr>)
      = Inl TypeError
   \<and> progress (handleProgress (mount new_video)) = Fin 0
   \<and> click_pos (Fin 250) \<lparr>rect_left = Fin 0, rect_width = Fin 100\<rparr> = Fin 1
   \<and> handleProgressClick_v2 (Fin 250)
        (mount_v2 (new_video\<lparr>video_duration := Fin 10\<rparr>) \<lparr>rect_left = Fin 0, rect_width = Fin 100\<rparr>)
      = Inr ((mount_v2 (new_video\<lparr>video_duration := Fin 10\<rparr>) \<lparr>rect_left = Fin 0, rect_width = Fin 100\<rparr>)
               \<lparr>videoRef_v2 := Some (new_video\<lparr>video_duration := Fin 10, video_currentTime := Fin 10\<rparr>)\<rparr>)
   \<and> handleSeek (Fin (1 / 2)) (mount (new_video\<lparr>video_duration := Fin 10\<rparr>))
      = Inr ((mount (new_video\<lparr>video_duration := Fin 10\<rparr>))
               \<lparr>videoRef := Some (new_video\<lparr>video_duration := Fin 10, video_muted := True, video_currentTime := Fin 5\<rparr>),
                progress := Fin (1 / 2)\<rparr>)"
  by (simp add: handleSeek_def handleProgressClick_v1_def handleProgressClick_v2_def
      handleProgress_def assign_currentTime_def click_pos_def current_v1_def mount_def
      mount_v1_def mount_v2_def new_video_def js_or_def)

section \<open>Properties of the displayed progress after a seek\<close>

lemma store_v1_cells: "reel_state.truncate (store_v1 s v c) = reel_state.truncate c"
  by (cases s) (simp_all add: reel_state.truncate_def)

lemma handleProgressClick_v1_cells:
  "handleProgressClick_v1 x c = Inr c' \<Longrightarrow> reel_state.truncate c' = reel_state.truncate c"
  by (auto simp: handleProgressClick_v1_def assign_currentTime_def store_v1_cells
      split: option.splits prod.splits if_splits)

lemma handleProgressClick_v2_cells:
  "handleProgressClick_v2 x c = Inr c' \<Longrightarrow> reel_state.truncate c' = reel_state.truncate c"
  by (auto simp: handleProgressClick_v2_def assign_currentTime_def reel_state.truncate_def
      split: option.splits prod.splits if_splits)

text \<open>
  Claim C9, as the code has it. In the named file \<open>handleSeek\<close> stores the requested
  fraction as progress in the same call, provided the assignment to the current time did
  not throw; when it throws, nothing is stored. In both versions of \<open>part_000\<close>
  \<open>handleProgressClick\<close> leaves the progress cell as it was: the cell follows at the next
  \<open>timeupdate\<close>, when \<open>handleTimeUpdate\<close> computes it from the element's current time.
\<close>

theorem seek_updates_progress:
  "(videoRef c = Some v \<and> isFinite (js_mul val (video_duration v)) \<longrightarrow>
      (\<exists>c'. handleSeek val c = Inr c' \<and> progress c' = val))
   \<and> (videoRef c = Some v \<and> \<not> isFinite (js_mul val (video_duration v)) \<longrightarrow>
      handleSeek val c = Inl TypeError)
   \<and> (handleProgressClick_v1 x c1 = Inr c1' \<longrightarrow> progressPercent c1' = progressPercent c1)
   \<and> (handleProgressClick_v2 x c2 = Inr c2' \<longrightarrow> progressPercent c2' = progressPercent c2)
   \<and> (progressRef c2 = Some r \<and> videoRef_v2 c2 = Some v2
        \<and> isFinite (js_mul (click_pos x r) (video_duration v2))
        \<and> handleProgressClick_v2 x c2 = Inr c2' \<longrightarrow>
        progressPercent (handleTimeUpdate_v2 c2')
          = js_mul (js_div (js_mul (click_pos x r) (video_duration v2))
                      (js_or (video_duration v2) (Fin 1))) (Fin 100))"
proof -
  have "progressPercent c1' = progressPercent c1" if "handleProgressClick_v1 x c1 = Inr c1'"
    using handleProgressClick_v1_cells[OF that]
    by (simp add: reel_state.truncate_def)
  moreover have "progressPercent c2' = progressPercent c2" if "handleProgressClick_v2 x c2 = Inr c2'"
    using handleProgressClick_v2_cells[OF that]
    by (simp add: reel_state.truncate_def)
  moreover have "progressPercent (handleTimeUpdate_v2 c2')
          = js_mul (js_div (js_mul (click_pos x r) (video_duration v2))
                      (js_or (video_duration v2) (Fin 1))) (Fin 100)"
    if "progressRef c2 = Some r" "videoRef_v2 c2 = Some v2"
       "isFinite (js_mul (click_pos x r) (video_duration v2))"
       "handleProgressClick_v2 x c2 = Inr c2'"
    using that handleProgressClick_v2_attached[OF that(1) that(2), of x]
    by (auto simp: handleTimeUpdate_v2_def)
  ultimately show ?thesis
    using handleSeek_attached[of c v val] by auto
qed

theorem seek_updates_progress_witness:
  "(\<exists>c'. handleSeek (Fin (1 / 2)) (mount (new_video\<lparr>video_duration := Fin 10\<rparr>)) = Inr c'
         \<and> progress c' = Fin (1 / 2))
   \<and> handleSeek (Fin (1 / 2)) (mount new_video) = Inl TypeError
   \<and> (\<exists>c2'. handleProgressClick_v2 (Fin 50)
               (mount_v2 (new_video\<lparr>video_duration := Fin 10\<rparr>) \<lparr>rect_left = Fin 0, rect_width = Fin 100\<rparr>)
             = Inr c2'
         \<and> progressPercent c2' = Fin 0
         \<and> progressPercent (handleTimeUpdate_v2 c2') = Fin 50)"
proof -
  define v where "v = new_video\<lparr>video_duration := Fin 10\<rparr>"
  define r where "r = \<lparr>rect_left = Fin 0, rect_width = Fin 100\<rparr>"
  define c2 where "c2 = mount_v2 v r"
  have a: "videoRef (mount v) = Some (v\<lparr>video_muted := True\<rparr>)
      \<and> isFinite (js_mul (Fin (1 / 2)) (video_duration (v\<lparr>video_muted := True\<rparr>)))"
    by (simp add: mount_def v_def)
  have a': "videoRef (mount new_video) = Some (new_video\<lparr>video_muted := True\<rparr>)
      \<and> \<not> isFinite (js_mul (Fin (1 / 2)) (video_duration (new_video\<lparr>video_muted := True\<rparr>)))"
    by (simp add: mount_def new_video_def)
  have pos: "click_pos (Fin 50) r = Fin (1 / 2)"
    by (simp add: click_pos_def r_def)
  have b: "progressRef c2 = Some r" "videoRef_v2 c2 = Some v"
    "isFinite (js_mul (click_pos (Fin 50) r) (video_duration v))"
    by (simp_all add: c2_def mount_v2_def pos v_def)
  obtain c2' where click: "handleProgressClick_v2 (Fin 50) c2 = Inr c2'"
    using handleProgressClick_v2_attached[OF b(1) b(2), of "Fin 50"] b(3) by simp
  have zero: "progressPercent c2 = Fin 0"
    by (simp add: c2_def mount_v2_def)
  have target: "js_mul (js_div (js_mul (click_pos (Fin 50) r) (video_duration v))
                      (js_or (video_duration v) (Fin 1))) (Fin 100) = Fin 50"
    by (simp add: pos v_def js_or_def)
  have first: "\<exists>c'. handleSeek (Fin (1 / 2)) (mount v) = Inr c' \<and> progress c' = Fin (1 / 2)"
    using seek_updates_progress[of "mount v" "v\<lparr>video_muted := True\<rparr>" "Fin (1 / 2)"] a by blast
  have second: "handleSeek (Fin (1 / 2)) (mount new_video) = Inl TypeError"
    using seek_updates_progress[of "mount new_video" "new_video\<lparr>video_muted := True\<rparr>" "Fin (1 / 2)"] a'
    by blast
  have third: "progressPercent c2' = Fin 0 \<and> progressPercent (handleTimeUpdate_v2 c2') = Fin 50"
    using seek_updates_progress[where x = "Fin 50" and ?c2.0 = c2 and c2' = c2' and r = r and ?v2.0 = v]
      b click zero target
    by simp
  show ?thesis
    using first second third click unfolding c2_def v_def r_def by blast
qed

text \<open>
  Claim C9 as stated has every seek update the displayed progress at once. A click in the
  middle of the progress bar (position 1/2) of a card of \<open>part_000\<close> whose element has the
  duration 10 assigns 5 to the element's current time and leaves the progress cell at 0.
\<close>

theorem handleProgressClick_counterexample:
  "click_pos (Fin 50) \<lparr>rect_left = Fin 0, rect_width = Fin 100\<rparr> = Fin (1 / 2)
   \<and> handleProgressClick_v2 (Fin 50)
        (mount_v2 (new_video\<lparr>video_duration := Fin 10\<rparr>) \<lparr>rect_left = Fin 0, rect_width = Fin 100\<rparr>)
      = Inr ((mount_v2 (new_video\<lparr>video_duration := Fin 10\<rparr>) \<lparr>rect_left = Fin 0, rect_width = Fin 100\<rparr>)
               \<lparr>videoRef_v2 := Some (new_video\<lparr>video_duration := Fin 10, video_currentTime := Fin 5\<rparr>)\<rparr>)
   \<and> progressPercent
        ((mount_v2 (new_video\<lparr>video_duration := Fin 10\<rparr>) \<lparr>rect_left = Fin 0, rect_width = Fin 100\<rparr>)
               \<lparr>videoRef_v2 := Some (new_video\<lparr>video_duration := Fin 10, video_currentTime := Fin 5\<rparr>)\<rparr>)
      = Fin 0"
  by (simp add: handleProgressClick_v2_def assign_currentTime_def click_pos_def mount_v2_def new_video_def)

section \<open>Commands without an element\<close>

text \<open>
  Claim C10. When no media element is attached (every reference the component reads is
  \<open>null\<close>), \<open>togglePlay\<close>, \<open>toggleMute\<close> and the seek handler return the card as it was: no
  cell and no property of an element is written, and nothing is thrown. This holds in the
  named file and in both versions of \<open>part_000\<close>.
\<close>

theorem commands_without_element:
  "(videoRef c = None \<longrightarrow>
      togglePlay outcome c = c \<and> toggleMute c = c \<and> handleSeek val c = Inr c)
   \<and> (desktopVideoRef c1 = None \<and> mobileVideoRef c1 = None \<longrightarrow>
      togglePlay_v1 outcome c1 = c1 \<and> toggleMute_v1 c1 = c1 \<and> handleProgressClick_v1 x c1 = Inr c1)
   \<and> (videoRef_v2 c2 = None \<longrightarrow>
      togglePlay_v2 outcome c2 = c2 \<and> toggleMute_v2 c2 = c2 \<and> handleProgressClick_v2 x c2 = Inr c2)"
proof -
  have "togglePlay outcome c = c \<and> toggleMute c = c \<and> handleSeek val c = Inr c"
    if "videoRef c = None"
    using that by (simp add: togglePlay_def toggleMute_def handleSeek_def)
  moreover have "togglePlay_v1 outcome c1 = c1 \<and> toggleMute_v1 c1 = c1
      \<and> handleProgressClick_v1 x c1 = Inr c1"
    if "desktopVideoRef c1 = None" "mobileVideoRef c1 = None"
  proof -
    have "current_v1 c1 = None" using that by (simp add: current_v1_def)
    then show ?thesis
      by (simp add: togglePlay_v1_def toggleMute_v1_def handleProgressClick_v1_def
          split: option.splits)
  qed
  moreover have "togglePlay_v2 outcome c2 = c2 \<and> toggleMute_v2 c2 = c2
      \<and> handleProgressClick_v2 x c2 = Inr c2"
    if "videoRef_v2 c2 = None"
    using that
    by (simp add: togglePlay_v2_def toggleMute_v2_def handleProgressClick_v2_def
        split: option.splits)
  ultimately show ?thesis by blast
qed

theorem commands_without_element_witness:
  "videoRef ((mount new_video)\<lparr>videoRef := None\<rparr>) = None
   \<and> togglePlay Fulfilled ((mount new_video)\<lparr>videoRef := None\<rparr>) = (mount new_video)\<lparr>videoRef := None\<rparr>
   \<and> toggleMute ((mount new_video)\<lparr>videoRef := None\<rparr>) = (mount new_video)\<lparr>videoRef := None\<rparr>
   \<and> handleSeek (Fin (1 / 2)) ((mount new_video)\<lparr>videoRef := None\<rparr>) = Inr ((mount new_video)\<lparr>videoRef := None\<rparr>)
   \<and> toggleMute_v1 ((mount_v1 new_video new_video \<lparr>rect_left = Fin 0, rect_width = Fin 100\<rparr>)
                       \<lparr>desktopVideoRef := None, mobileVideoRef := None\<rparr>)
      = (mount_v1 new_video new_video \<lparr>rect_left = Fin 0, rect_width = Fin 100\<rparr>)
                       \<lparr>desktopVideoRef := None, mobileVideoRef := None\<rparr>
   \<and> handleProgressClick_v2 (Fin 50)
        ((mount_v2 new_video \<lparr>rect_left = Fin 0, rect_width = Fin 100\<rparr>)\<lparr>videoRef_v2 := None\<rparr>)
      = Inr ((mount_v2 new_video \<lparr>rect_left = Fin 0, rect_width = Fin 100\<rparr>)\<lparr>videoRef_v2 := None\<rparr>)"
proof -
  define c where "c = (mount new_video)\<lparr>videoRef := None\<rparr>"
  define c1 where "c1 = (mount_v1 new_video new_video \<lparr>rect_left = Fin 0, rect_width = Fin 100\<rparr>)
                       \<lparr>desktopVideoRef := None, mobileVideoRef := None\<rparr>"
  define c2 where "c2 = (mount_v2 new_video \<lparr>rect_left = Fin 0, rect_width = Fin 100\<rparr>)\<lparr>videoRef_v2 := None\<rparr>"
  have h: "videoRef c = None" by (simp add: c_def)
  have h1: "desktopVideoRef c1 = None \<and> mobileVideoRef c1 = None" by (simp add: c1_def)
  have h2: "videoRef_v2 c2 = None" by (simp add: c2_def)
  show ?thesis
    using commands_without_element[of c Fulfilled "Fin (1 / 2)" c1 "Fin 50" c2] h h1 h2
    unfolding c_def c1_def c2_def by blast
qed

section \<open>Who writes the mirrored cells\<close>

lemma store_v1_mirrored: "mirrored (store_v1 s v c) = mirrored c"
  by (cases s) (simp_all add: mirrored_def)

lemma mirrored_console: "mirrored (c\<lparr>console := x\<rparr>) = mirrored c"
  by (simp add: mirrored_def)

lemma mirrored_isMuted: "mirrored (c\<lparr>isMuted := x\<rparr>) = mirrored c"
  by (simp add: mirrored_def)

lemma truncate_mirrored:
  "reel_state.truncate c' = reel_state.truncate c \<Longrightarrow> mirrored c' = mirrored c"
  by (simp add: reel_state.truncate_def mirrored_def)

text \<open>
  Claim C7. No command writes a mirrored cell: in the named file and in both versions of
  \<open>part_000\<close>, \<open>togglePlay\<close>, \<open>toggleMute\<close>, the seek handler and the other gestures leave
  \<open>playing\<close> (in \<open>part_000\<close>: \<open>isPlaying\<close>, \<open>isLoading\<close>, \<open>hasError\<close>, \<open>duration\<close> and
  \<open>currentTime\<close>) as they were; in particular \<open>togglePlay\<close> on a paused element does not
  set the playing cell. The cells are written by the listeners: the playing cell is true
  after the \<open>play\<close> event that follows the command and false after \<open>pause\<close>; \<open>canplay\<close> clears
  \<open>isLoading\<close>, \<open>error\<close> sets \<open>hasError\<close>, \<open>loadedmetadata\<close> stores the duration and
  \<open>timeupdate\<close> the current time. The one other writer, the effect of the second version
  of \<open>part_000\<close> that loads the source, runs on the mounted card and stores in \<open>isLoading\<close>
  and \<open>hasError\<close> the values they hold there.
\<close>

theorem mirrored_cells_written_by_listeners_only:
  "playing (togglePlay outcome c) = playing c
   \<and> playing (toggleMute c) = playing c
   \<and> playing (toggleDescription c) = playing c
   \<and> (handleSeek val c = Inr c' \<longrightarrow> playing c' = playing c)
   \<and> playing (onPlay (togglePlay outcome c))
   \<and> \<not> playing (onPause c)
   \<and> playing (onTimeUpdate c) = playing c
   \<and> mirrored (togglePlay_v1 outcome c1) = mirrored c1
   \<and> mirrored (toggleMute_v1 c1) = mirrored c1
   \<and> mirrored (onMouseEnter c1) = mirrored c1
   \<and> mirrored (onMouseLeave c1) = mirrored c1
   \<and> (handleProgressClick_v1 x c1 = Inr c1' \<longrightarrow> mirrored c1' = mirrored c1)
   \<and> mirrored (handlePlay (togglePlay_v1 outcome c1))
        = (True, isLoading c1, hasError c1, duration c1, currentTime c1)
   \<and> mirrored (handlePause c1) = (False, isLoading c1, hasError c1, duration c1, currentTime c1)
   \<and> mirrored (onCanPlay c1) = (isPlaying c1, False, hasError c1, duration c1, currentTime c1)
   \<and> mirrored (handleError c1) = (isPlaying c1, isLoading c1, True, duration c1, currentTime c1)
   \<and> mirrored (handleLoadedMetadata video c1)
        = (isPlaying c1, isLoading c1, hasError c1, video_duration video, currentTime c1)
   \<and> (current_v1 c1 = Some (s, v1) \<longrightarrow>
        mirrored (handleTimeUpdate_v1 c1)
          = (isPlaying c1, isLoading c1, hasError c1, duration c1, video_currentTime v1))
   \<and> mirrored (togglePlay_v2 outcome c2) = mirrored c2
   \<and> mirrored (toggleMute_v2 c2) = mirrored c2
   \<and> (handleProgressClick_v2 x c2 = Inr c2' \<longrightarrow> mirrored c2' = mirrored c2)
   \<and> mirrored (loadEffect_v2 videoSrc (mount_v2 video r)) = mirrored (mount_v2 video r)"
proof -
  have tsx: "playing (togglePlay outcome c) = playing c \<and> playing (toggleMute c) = playing c
      \<and> playing (toggleDescription c) = playing c \<and> playing (onPlay (togglePlay outcome c))
      \<and> \<not> playing (onPause c) \<and> playing (onTimeUpdate c) = playing c"
    by (simp add: togglePlay_def toggleMute_def toggleDescription_def onPlay_def onPause_def
        onTimeUpdate_def handleProgress_def Let_def split: option.splits)
  have seek: "playing c' = playing c" if "handleSeek val c = Inr c'"
    using that
    by (auto simp: handleSeek_def assign_currentTime_def split: option.splits if_splits)
  have play1: "mirrored (togglePlay_v1 outcome c1) = mirrored c1"
    by (simp add: togglePlay_v1_def store_v1_mirrored mirrored_console
        split: option.splits prod.splits)
  have mute1: "mirrored (toggleMute_v1 c1) = mirrored c1"
    by (simp add: toggleMute_v1_def Let_def store_v1_mirrored mirrored_isMuted
        split: option.splits prod.splits)
  have mouse: "mirrored (onMouseEnter c1) = mirrored c1 \<and> mirrored (onMouseLeave c1) = mirrored c1"
    by (simp add: onMouseEnter_def onMouseLeave_def mirrored_def)
  have click1: "mirrored c1' = mirrored c1" if "handleProgressClick_v1 x c1 = Inr c1'"
    using handleProgressClick_v1_cells[OF that] by (rule truncate_mirrored)
  have listeners: "mirrored (handlePlay (togglePlay_v1 outcome c1))
        = (True, isLoading c1, hasError c1, duration c1, currentTime c1)
      \<and> mirrored (handlePause c1) = (False, isLoading c1, hasError c1, duration c1, currentTime c1)
      \<and> mirrored (onCanPlay c1) = (isPlaying c1, False, hasError c1, duration c1, currentTime c1)
      \<and> mirrored (handleError c1) = (isPlaying c1, isLoading c1, True, duration c1, currentTime c1)
      \<and> mirrored (handleLoadedMetadata video c1)
        = (isPlaying c1, isLoading c1, hasError c1, video_duration video, currentTime c1)"
    using play1
    by (simp add: handlePlay_def handlePause_def onCanPlay_def handleError_def
        handleLoadedMetadata_def mirrored_def)
  have time1: "mirrored (handleTimeUpdate_v1 c1)
          = (isPlaying c1, isLoading c1, hasError c1, duration c1, video_currentTime v1)"
    if "current_v1 c1 = Some (s, v1)"
    using that by (simp add: handleTimeUpdate_v1_def mirrored_def)
  have play2: "mirrored (togglePlay_v2 outcome c2) = mirrored c2"
    by (simp add: togglePlay_v2_def mirrored_def split: option.splits)
  have mute2: "mirrored (toggleMute_v2 c2) = mirrored c2"
    by (simp add: toggleMute_v2_def Let_def mirrored_def split: option.splits)
  have click2: "mirrored c2' = mirrored c2" if "handleProgressClick_v2 x c2 = Inr c2'"
    using handleProgressClick_v2_cells[OF that] by (rule truncate_mirrored)
  have effect: "mirrored (loadEffect_v2 videoSrc (mount_v2 video r)) = mirrored (mount_v2 video r)"
    by (simp add: loadEffect_v2_def mount_v2_def mirrored_def)
  show ?thesis
    using tsx seek play1 mute1 mouse click1 listeners time1 play2 mute2 click2 effect
    by blast
qed

theorem mirrored_cells_written_by_listeners_only_witness:
  "handleSeek (Fin (1 / 2)) (mount (new_video\<lparr>video_duration := Fin 10\<rparr>))
     = Inr ((mount (new_video\<lparr>video_duration := Fin 10\<rparr>))
              \<lparr>videoRef := Some (new_video\<lparr>video_duration := Fin 10, video_muted := True, video_currentTime := Fin 5\<rparr>),
               progress := Fin (1 / 2)\<rparr>)
   \<and> \<not> playing ((mount (new_video\<lparr>video_duration := Fin 10\<rparr>))
              \<lparr>videoRef := Some (new_video\<lparr>video_duration := Fin 10, video_muted := True, video_currentTime := Fin 5\<rparr>),
               progress := Fin (1 / 2)\<rparr>)
   \<and> \<not> playing (togglePlay Fulfilled (mount new_video))
   \<and> playing (onPlay (togglePlay Fulfilled (mount new_video)))
   \<and> handleProgressClick_v1 (Fin 50)
        (mount_v1 (new_video\<lparr>video_duration := Fin 10\<rparr>) new_video \<lparr>rect_left = Fin 0, rect_width = Fin 100\<rparr>)
      = Inr ((mount_v1 (new_video\<lparr>video_duration := Fin 10\<rparr>) new_video \<lparr>rect_left = Fin 0, rect_width = Fin 100\<rparr>)
               \<lparr>desktopVideoRef := Some (new_video\<lparr>video_duration := Fin 10, video_currentTime := Fin 5\<rparr>)\<rparr>)
   \<and> mirrored ((mount_v1 (new_video\<lparr>video_duration := Fin 10\<rparr>) new_video \<lparr>rect_left = Fin 0, rect_width = Fin 100\<rparr>)
               \<lparr>desktopVideoRef := Some (new_video\<lparr>video_duration := Fin 10, video_currentTime := Fin 5\<rparr>)\<rparr>)
      = (False, True, False, Fin 0, Fin 0)
   \<and> mirrored (handleTimeUpdate_v1
        ((mount_v1 (new_video\<lparr>video_duration := Fin 10\<rparr>) new_video \<lparr>rect_left = Fin 0, rect_width = Fin 100\<rparr>)
               \<lparr>desktopVideoRef := Some (new_video\<lparr>video_duration := Fin 10, video_currentTime := Fin 5\<rparr>)\<rparr>))
      = (False, True, False, Fin 0, Fin 5)
   \<and> handleProgressClick_v2 (Fin 50)
        (mount_v2 (new_video\<lparr>video_duration := Fin 10\<rparr>) \<lparr>rect_left = Fin 0, rect_width = Fin 100\<rparr>)
      = Inr ((mount_v2 (new_video\<lparr>video_duration := Fin 10\<rparr>) \<lparr>rect_left = Fin 0, rect_width = Fin 100\<rparr>)
               \<lparr>videoRef_v2 := Some (new_video\<lparr>video_duration := Fin 10, video_currentTime := Fin 5\<rparr>)\<rparr>)
   \<and> mirrored ((mount_v2 (new_video\<lparr>video_duration := Fin 10\<rparr>) \<lparr>rect_left = Fin 0, rect_width = Fin 100\<rparr>)
               \<lparr>videoRef_v2 := Some (new_video\<lparr>video_duration := Fin 10, video_currentTime := Fin 5\<rparr>)\<rparr>)
      = (False, True, False, Fin 0, Fin 0)"
proof -
  define v where "v = new_video\<lparr>video_duration := Fin 10\<rparr>"
  define v' where "v' = new_video\<lparr>video_duration := Fin 10, video_currentTime := Fin 5\<rparr>"
  define r where "r = \<lparr>rect_left = Fin 0, rect_width = Fin 100\<rparr>"
  define c where "c = mount v"
  define c' where "c' = c\<lparr>videoRef := Some (v'\<lparr>video_muted := True\<rparr>), progress := Fin (1 / 2)\<rparr>"
  define c1 where "c1 = mount_v1 v new_video r"
  define c1' where "c1' = c1\<lparr>desktopVideoRef := Some v'\<rparr>"
  define c2 where "c2 = mount_v2 v r"
  define c2' where "c2' = c2\<lparr>videoRef_v2 := Some v'\<rparr>"
  have seek: "handleSeek (Fin (1 / 2)) c = Inr c'"
    by (simp add: c_def c'_def v_def v'_def handleSeek_def assign_currentTime_def mount_def
        new_video_def)
  have click1: "handleProgressClick_v1 (Fin 50) c1 = Inr c1'"
    by (simp add: c1_def c1'_def v_def v'_def r_def handleProgressClick_v1_def
        assign_currentTime_def mount_v1_def new_video_def current_v1_def click_pos_def)
  have click2: "handleProgressClick_v2 (Fin 50) c2 = Inr c2'"
    by (simp add: c2_def c2'_def v_def v'_def r_def handleProgressClick_v2_def
        assign_currentTime_def mount_v2_def new_video_def click_pos_def)
  have cur: "current_v1 c1' = Some (Desktop, v')"
    by (simp add: c1'_def current_v1_def)
  have p: "\<not> playing c" by (simp add: c_def mount_def)
  have q: "\<not> playing (mount new_video)" by (simp add: mount_def)
  have m1: "mirrored c1 = (False, True, False, Fin 0, Fin 0)"
    by (simp add: c1_def mount_v1_def mirrored_def)
  have m1': "mirrored c1' = (False, True, False, Fin 0, Fin 0)"
    by (simp add: c1'_def c1_def mount_v1_def mirrored_def)
  have m2: "mirrored c2 = (False, True, False, Fin 0, Fin 0)"
    by (simp add: c2_def mount_v2_def mirrored_def)
  have t: "video_currentTime v' = Fin 5" by (simp add: v'_def)
  have a: "\<not> playing c' \<and> mirrored c1' = mirrored c1 \<and> mirrored c2' = mirrored c2"
    using mirrored_cells_written_by_listeners_only
            [where c = c and c' = c' and val = "Fin (1 / 2)" and ?c1.0 = c1 and c1' = c1'
               and x = "Fin 50" and ?c2.0 = c2 and c2' = c2']
          seek click1 click2 p
    by simp
  have b: "\<not> playing (togglePlay Fulfilled (mount new_video))
      \<and> playing (onPlay (togglePlay Fulfilled (mount new_video)))"
    using mirrored_cells_written_by_listeners_only[where c = "mount new_video" and outcome = Fulfilled] q
    by simp
  have d: "mirrored (handleTimeUpdate_v1 c1') = (False, True, False, Fin 0, Fin 5)"
    using mirrored_cells_written_by_listeners_only[where ?c1.0 = c1' and s = Desktop and ?v1.0 = v']
          cur m1' t
    by (simp add: mirrored_def)
  show ?thesis
    using a b d seek click1 click2 m1 m2
    unfolding c_def c'_def c1_def c1'_def c2_def c2'_def v_def v'_def r_def
    by (simp add: mirrored_def)
qed

section \<open>After a load error\<close>

lemma on_card_other: "j \<noteq> i \<Longrightarrow> on_card i handler cards ! j = cards ! j"
  by (simp add: on_card_def)

lemma on_card_length: "length (on_card i handler cards) = length cards"
  by (simp add: on_card_def)

lemma on_card_self: "i < length cards \<Longrightarrow> on_card i handler cards ! i = handler (cards ! i)"
  by (simp add: on_card_def)

text \<open>
  Claim C5, as the code has it. After an \<open>error\<close> event the card has \<open>hasError\<close> set and shows
  \<open>Failed to load video\<close> in place of the element that was rendered conditionally, whose
  reference is detached. In the second version of \<open>part_000\<close> that is the only element:
  \<open>togglePlay\<close>, \<open>toggleMute\<close> and \<open>handleProgressClick\<close> then return the card as it was. In
  the first version the mobile element stays mounted and the commands fall through to it:
  \<open>toggleMute\<close> flips its \<open>muted\<close> property and the cell \<open>isMuted\<close>; the commands are inert
  only when there is no mobile element either. In both versions the event changes the
  card it is dispatched on and no other card of the gallery.
\<close>

theorem error_detaches_the_rendered_element:
  "hasError (error_event_v1 c1)
   \<and> video_area (error_event_v1 c1) = Failed_to_load_video
   \<and> desktopVideoRef (error_event_v1 c1) = None
   \<and> mobileVideoRef (error_event_v1 c1) = mobileVideoRef c1
   \<and> (mobileVideoRef c1 = Some m \<longrightarrow>
        current_v1 (error_event_v1 c1) = Some (Mobile, m)
        \<and> toggleMute_v1 (error_event_v1 c1)
            = (error_event_v1 c1)\<lparr>mobileVideoRef := Some (m\<lparr>video_muted := \<not> video_muted m\<rparr>),
                                    isMuted := \<not> video_muted m\<rparr>)
   \<and> (mobileVideoRef c1 = None \<longrightarrow>
        togglePlay_v1 outcome (error_event_v1 c1) = error_event_v1 c1
        \<and> toggleMute_v1 (error_event_v1 c1) = error_event_v1 c1
        \<and> handleProgressClick_v1 x (error_event_v1 c1) = Inr (error_event_v1 c1))
   \<and> hasError (error_event_v2 c2)
   \<and> video_area (error_event_v2 c2) = Failed_to_load_video
   \<and> videoRef_v2 (error_event_v2 c2) = None
   \<and> togglePlay_v2 outcome (error_event_v2 c2) = error_event_v2 c2
   \<and> toggleMute_v2 (error_event_v2 c2) = error_event_v2 c2
   \<and> handleProgressClick_v2 x (error_event_v2 c2) = Inr (error_event_v2 c2)
   \<and> length (on_card i error_event_v1 cards1) = length cards1
   \<and> (i < length cards1 \<longrightarrow> on_card i error_event_v1 cards1 ! i = error_event_v1 (cards1 ! i))
   \<and> (j \<noteq> i \<longrightarrow> on_card i error_event_v1 cards1 ! j = cards1 ! j)
   \<and> length (on_card i error_event_v2 cards2) = length cards2
   \<and> (i < length cards2 \<longrightarrow> on_card i error_event_v2 cards2 ! i = error_event_v2 (cards2 ! i))
   \<and> (j \<noteq> i \<longrightarrow> on_card i error_event_v2 cards2 ! j = cards2 ! j)"
proof -
  let ?e1 = "error_event_v1 c1" and ?e2 = "error_event_v2 c2"
  have e1: "hasError ?e1 \<and> video_area ?e1 = Failed_to_load_video \<and> desktopVideoRef ?e1 = None
      \<and> mobileVideoRef ?e1 = mobileVideoRef c1"
    by (simp add: error_event_v1_def render_v1_def handleError_def video_area_def)
  have mob: "current_v1 ?e1 = Some (Mobile, m)
        \<and> toggleMute_v1 ?e1
            = ?e1\<lparr>mobileVideoRef := Some (m\<lparr>video_muted := \<not> video_muted m\<rparr>),
                    isMuted := \<not> video_muted m\<rparr>"
    if "mobileVideoRef c1 = Some m"
  proof -
    have cur: "current_v1 ?e1 = Some (Mobile, m)"
      using e1 that by (simp add: current_v1_def)
    then show ?thesis by (simp add: toggleMute_v1_def Let_def)
  qed
  have nomob: "togglePlay_v1 outcome ?e1 = ?e1 \<and> toggleMute_v1 ?e1 = ?e1
        \<and> handleProgressClick_v1 x ?e1 = Inr ?e1"
    if "mobileVideoRef c1 = None"
  proof -
    have "current_v1 ?e1 = None" using e1 that by (simp add: current_v1_def)
    then show ?thesis
      by (simp add: togglePlay_v1_def toggleMute_v1_def handleProgressClick_v1_def
          split: option.splits)
  qed
  have e2: "hasError ?e2 \<and> video_area ?e2 = Failed_to_load_video \<and> videoRef_v2 ?e2 = None"
    by (simp add: error_event_v2_def render_v2_def handleError_def video_area_def)
  then have inert: "togglePlay_v2 outcome ?e2 = ?e2 \<and> toggleMute_v2 ?e2 = ?e2
      \<and> handleProgressClick_v2 x ?e2 = Inr ?e2"
    by (simp add: togglePlay_v2_def toggleMute_v2_def handleProgressClick_v2_def
        split: option.splits)
  show ?thesis
    using e1 mob nomob e2 inert
      on_card_length[of i error_event_v1 cards1] on_card_other[of j i error_event_v1 cards1]
      on_card_length[of i error_event_v2 cards2] on_card_other[of j i error_event_v2 cards2]
      on_card_self[of i cards1 error_event_v1] on_card_self[of i cards2 error_event_v2]
    by blast
qed

theorem error_detaches_the_rendered_element_witness:
  "toggleMute_v1 (error_event_v1 (mount_v1 new_video new_video \<lparr>rect_left = Fin 0, rect_width = Fin 100\<rparr>))
     = (error_event_v1 (mount_v1 new_video new_video \<lparr>rect_left = Fin 0, rect_width = Fin 100\<rparr>))
         \<lparr>mobileVideoRef := Some (new_video\<lparr>video_muted := True\<rparr>), isMuted := True\<rparr>
   \<and> toggleMute_v1 (error_event_v1
        ((mount_v1 new_video new_video \<lparr>rect_left = Fin 0, rect_width = Fin 100\<rparr>)\<lparr>mobileVideoRef := None\<rparr>))
     = error_event_v1
        ((mount_v1 new_video new_video \<lparr>rect_left = Fin 0, rect_width = Fin 100\<rparr>)\<lparr>mobileVideoRef := None\<rparr>)
   \<and> on_card 0 error_event_v1
        [mount_v1 new_video new_video \<lparr>rect_left = Fin 0, rect_width = Fin 100\<rparr>,
         mount_v1 new_video new_video \<lparr>rect_left = Fin 0, rect_width = Fin 100\<rparr>] ! 0
     = error_event_v1 (mount_v1 new_video new_video \<lparr>rect_left = Fin 0, rect_width = Fin 100\<rparr>)
   \<and> on_card 0 error_event_v1
        [mount_v1 new_video new_video \<lparr>rect_left = Fin 0, rect_width = Fin 100\<rparr>,
         mount_v1 new_video new_video \<lparr>rect_left = Fin 0, rect_width = Fin 100\<rparr>] ! 1
     = mount_v1 new_video new_video \<lparr>rect_left = Fin 0, rect_width = Fin 100\<rparr>
   \<and> on_card 0 error_event_v2
        [mount_v2 new_video \<lparr>rect_left = Fin 0, rect_width = Fin 100\<rparr>,
         mount_v2 new_video \<lparr>rect_left = Fin 0, rect_width = Fin 100\<rparr>] ! 1
     = mount_v2 new_video \<lparr>rect_left = Fin 0, rect_width = Fin 100\<rparr>"
proof -
  define c1 where "c1 = mount_v1 new_video new_video \<lparr>rect_left = Fin 0, rect_width = Fin 100\<rparr>"
  define c2 where "c2 = mount_v2 new_video \<lparr>rect_left = Fin 0, rect_width = Fin 100\<rparr>"
  have some: "mobileVideoRef c1 = Some new_video" by (simp add: c1_def mount_v1_def)
  have none: "mobileVideoRef (c1\<lparr>mobileVideoRef := None\<rparr>) = None" by simp
  have m: "\<not> video_muted new_video" by (simp add: new_video_def)
  have ne: "(1::nat) \<noteq> 0" by simp
  have nth: "[c1, c1] ! 1 = c1" "[c2, c2] ! 1 = c2" "[c1, c1] ! 0 = c1" by simp_all
  have len: "0 < length [c1, c1]" "0 < length [c2, c2]" by simp_all
  from error_detaches_the_rendered_element
         [where ?c1.0 = c1 and m = new_video and i = 0 and j = 1 and ?cards1.0 = "[c1, c1]"
            and ?cards2.0 = "[c2, c2]"]
       error_detaches_the_rendered_element[where ?c1.0 = "c1\<lparr>mobileVideoRef := None\<rparr>"]
       some none m ne nth len
  show ?thesis
    unfolding c1_def c2_def by simp
qed

text \<open>
  Claim C5 as stated makes every control of the failed card inert. In the first version of
  \<open>part_000\<close>, the component the claim cites, \<open>toggleMute\<close> after the error event changes
  the cell \<open>isMuted\<close> from false to true.
\<close>

theorem toggleMute_after_error_counterexample:
  "hasError (error_event_v1 (mount_v1 new_video new_video \<lparr>rect_left = Fin 0, rect_width = Fin 100\<rparr>))
   \<and> \<not> isMuted (error_event_v1 (mount_v1 new_video new_video \<lparr>rect_left = Fin 0, rect_width = Fin 100\<rparr>))
   \<and> isMuted (toggleMute_v1
        (error_event_v1 (mount_v1 new_video new_video \<lparr>rect_left = Fin 0, rect_width = Fin 100\<rparr>)))"
  by (simp add: error_event_v1_def render_v1_def handleError_def mount_v1_def toggleMute_v1_def
      current_v1_def new_video_def Let_def)

section \<open>A rejected play command\<close>

text \<open>
  Claim C6 (a defect of the named file). \<open>togglePlay\<close> on a paused element whose \<open>play()\<close> is
  rejected with \<open>NotAllowedError\<close>: both versions of \<open>part_000\<close> catch the rejection and log
  it with \<open>console.error\<close>, and nothing else changes; the named file drops the promise, so
  that the rejection is neither caught nor logged by the component and is left unhandled.
  In all three the playing cell is untouched, as the claim says.
\<close>

theorem togglePlay_rejection_is_unhandled:
  "togglePlay (Rejected ''NotAllowedError'') (mount new_video)
     = (mount new_video)\<lparr>unhandled := [''NotAllowedError'']\<rparr>
   \<and> togglePlay_v1 (Rejected ''NotAllowedError'')
        (mount_v1 new_video new_video \<lparr>rect_left = Fin 0, rect_width = Fin 100\<rparr>)
     = (mount_v1 new_video new_video \<lparr>rect_left = Fin 0, rect_width = Fin 100\<rparr>)
         \<lparr>console := [''NotAllowedError'']\<rparr>
   \<and> togglePlay_v2 (Rejected ''NotAllowedError'')
        (mount_v2 new_video \<lparr>rect_left = Fin 0, rect_width = Fin 100\<rparr>)
     = (mount_v2 new_video \<lparr>rect_left = Fin 0, rect_width = Fin 100\<rparr>)
         \<lparr>console := [''NotAllowedError'']\<rparr>"
  by (simp add: togglePlay_def togglePlay_v1_def togglePlay_v2_def mount_def mount_v1_def
      mount_v2_def new_video_def play_def rejection_def current_v1_def)

section \<open>Normalisation of the input\<close>

lemma cards_of_rows:
  "map fst (concat (map (\<lambda>(rowIndex, row). map (\<lambda>reel. (reel, P rowIndex)) row) (enumerate n rows)))
     = concat rows"
  by (induction rows arbitrary: n) (simp_all add: comp_def)

lemma videos_cases:
  "videos Null = [] \<and> videos (One x) = [x] \<and> videos (Array xs) = xs"
  by (simp add: videos_def)

lemma videos_v2_eq: "videos_v2 d = videos d"
  by (cases d) (simp_all add: videos_def videos_v2_def)

text \<open>
  Claim C8, as the code has it. All three components normalise \<open>null\<close> to the empty list, a
  single reel to the list of that reel, and an array to itself. Both versions of
  \<open>part_000\<close> render the empty list as the paragraph \<open>No videos available\<close>, and a list that
  is not empty as one card per item, in order. The named file renders the cards of the
  rows of \<open>chunkByPattern\<close>, which are the items in order, none dropped or repeated; for
  the empty list it renders the section with no row, and no empty-state message.
\<close>

theorem normalised_list_is_rendered_in_order:
  "videos Null = ([] :: 'a list) \<and> videos (One x) = [x] \<and> videos (Array xs) = (xs :: 'a list)
   \<and> videos_v2 d = videos d
   \<and> MotionReelSection_v2 Null = (No_videos_available :: 'a view)
   \<and> MotionReelSection_v2 (Array []) = (No_videos_available :: 'a view)
   \<and> MotionReelSection_v2 (One x) = Grid [x]
   \<and> (xs \<noteq> [] \<longrightarrow> MotionReelSection_v2 (Array xs) = Grid xs)
   \<and> MotionReelSection_v1 d = MotionReelSection_v2 d
   \<and> cards_of (MotionReelSection_v2 d) = videos d
   \<and> cards_of (MotionReelSection d) = videos d
   \<and> MotionReelSection Null = (Rows [] :: 'a view)"
proof -
  have rows: "cards_of (MotionReelSection d) = videos d"
    by (simp add: MotionReelSection_def cards_of_rows chunkByPattern_def chunk_rows_concat)
  have grid: "cards_of (MotionReelSection_v2 d) = videos d"
    by (simp add: MotionReelSection_v2_def videos_v2_eq)
  have null: "MotionReelSection Null = (Rows [] :: 'a view)"
    by (simp add: MotionReelSection_def videos_def chunkByPattern_def chunk_rows_Nil)
  have v2: "MotionReelSection_v2 Null = (No_videos_available :: 'a view)
      \<and> MotionReelSection_v2 (Array []) = (No_videos_available :: 'a view)
      \<and> MotionReelSection_v2 (One x) = Grid [x]
      \<and> (xs \<noteq> [] \<longrightarrow> MotionReelSection_v2 (Array xs) = Grid xs)"
    by (simp add: MotionReelSection_v2_def videos_v2_def)
  have v1: "MotionReelSection_v1 d = MotionReelSection_v2 d"
    by (simp add: MotionReelSection_v2_def MotionReelSection_v1_def videos_v2_eq)
  show ?thesis
    using videos_cases[of x xs] videos_v2_eq[of d] rows grid null v2 v1 by blast
qed

theorem normalised_list_is_rendered_in_order_witness:
  "MotionReelSection_v2 (Array [''a'', ''b'', ''c'', ''d'']) = Grid [''a'', ''b'', ''c'', ''d'']
   \<and> cards_of (MotionReelSection (Array [''a'', ''b'', ''c'', ''d''])) = [''a'', ''b'', ''c'', ''d'']
   \<and> MotionReelSection (Array [''a'', ''b'', ''c'', ''d''])
      = Rows [[(''a'', True), (''b'', True), (''c'', True)], [(''d'', False)]]
   \<and> MotionReelSection_v2 (One ''a'') = Grid [''a'']"
proof -
  have ne: "[''a'', ''b'', ''c'', ''d''] \<noteq> []" by simp
  have rows: "MotionReelSection (Array [''a'', ''b'', ''c'', ''d''])
      = Rows [[(''a'', True), (''b'', True), (''c'', True)], [(''d'', False)]]"
    by (simp add: MotionReelSection_def videos_def chunkByPattern_def chunk_rows_Cons
        chunk_rows_Nil pattern_def enumerate_eq_zip upt_rec)
  from normalised_list_is_rendered_in_order
         [where xs = "[''a'', ''b'', ''c'', ''d'']" and d = "Array [''a'', ''b'', ''c'', ''d'']" and x = "''a''"]
       ne rows
  show ?thesis by (simp add: videos_def)
qed

text \<open>
  Claim C8 as stated has \<open>null\<close> rendered as the empty-state message. The named file
  normalises \<open>null\<close> to the empty list and returns its section (the heading and no row):
  it has no branch for the empty list.
\<close>

theorem no_empty_state_counterexample:
  "MotionReelSection (Null :: string data) = Rows []
   \<and> MotionReelSection (Null :: string data) \<noteq> No_videos_available"
  by (simp add: MotionReelSection_def videos_def chunkByPattern_def chunk_rows.simps)

end
